theory Spec2Isabelle
  imports Main
begin

section \<open>Python values\<close>

text \<open>
  The argument bag of a tool call, the documents of a YAML manifest and the data handed to
  \<^verbatim>\<open>json.dumps\<close> are all plain Python data. One datatype covers them: \<^verbatim>\<open>None\<close>, booleans,
  integers, strings, lists and dictionaries with string keys (an association list, looked up
  with \<open>map_of\<close>). Strings are sequences of code points below 256; floats are left out.
\<close>

datatype pyval =
    PNone
  | PBool bool
  | PInt int
  | PStr string
  | PList "pyval list"
  | PDict "(string \<times> pyval) list"

text \<open>An exception: its class name and the text \<^verbatim>\<open>str(e)\<close> gives.\<close>

datatype exn = Raised string string

fun exn_str :: "exn \<Rightarrow> string" where
  "exn_str (Raised cls msg) = msg"

text \<open>Sequencing of steps that may raise: the first exception ends the block.\<close>

fun and_then :: "exn + 'a \<Rightarrow> ('a \<Rightarrow> exn + 'b) \<Rightarrow> exn + 'b" where
  "and_then (Inl e) f = Inl e"
| "and_then (Inr x) f = f x"

fun map_exn :: "('a \<Rightarrow> exn + 'b) \<Rightarrow> 'a list \<Rightarrow> exn + 'b list" where
  "map_exn f [] = Inr []"
| "map_exn f (x # xs) =
     and_then (f x) (\<lambda>y. and_then (map_exn f xs) (\<lambda>ys. Inr (y # ys)))"

text \<open>Python's truth value of an object, as \<^verbatim>\<open>not x\<close>, \<^verbatim>\<open>if x\<close> and \<^verbatim>\<open>x or y\<close> test it.\<close>

fun truthy :: "pyval \<Rightarrow> bool" where
  "truthy PNone = False"
| "truthy (PBool b) = b"
| "truthy (PInt i) = (i \<noteq> 0)"
| "truthy (PStr s) = (s \<noteq> [])"
| "truthy (PList xs) = (xs \<noteq> [])"
| "truthy (PDict kvs) = (kvs \<noteq> [])"

fun type_name :: "pyval \<Rightarrow> string" where
  "type_name PNone = ''NoneType''"
| "type_name (PBool b) = ''bool''"
| "type_name (PInt i) = ''int''"
| "type_name (PStr s) = ''str''"
| "type_name (PList xs) = ''list''"
| "type_name (PDict kvs) = ''dict''"

definition quoted :: "string \<Rightarrow> string" where
  "quoted s = CHR 0x27 # s @ [CHR 0x27]"

definition AttributeError :: "string \<Rightarrow> string \<Rightarrow> exn" where
  "AttributeError ty a =
     Raised ''AttributeError'' (quoted ty @ '' object has no attribute '' @ quoted a)"

definition NotIterable :: exn where
  "NotIterable = Raised ''TypeError'' (quoted ''NoneType'' @ '' object is not iterable'')"

definition IndexError :: exn where
  "IndexError = Raised ''IndexError'' ''list index out of range''"

text \<open>\<^verbatim>\<open>obj.a\<close> where \<open>obj\<close> may be \<^verbatim>\<open>None\<close>: the object, or the AttributeError naming \<open>a\<close>.\<close>

definition attr :: "'a option \<Rightarrow> string \<Rightarrow> exn + 'a" where
  "attr obj a = (case obj of None \<Rightarrow> Inl (AttributeError ''NoneType'' a) | Some x \<Rightarrow> Inr x)"

text \<open>\<^verbatim>\<open>for x in xs\<close> where \<open>xs\<close> may be \<^verbatim>\<open>None\<close>.\<close>

definition iter :: "'a list option \<Rightarrow> exn + 'a list" where
  "iter xs = (case xs of None \<Rightarrow> Inl NotIterable | Some ys \<Rightarrow> Inr ys)"

text \<open>\<^verbatim>\<open>xs or []\<close> and \<^verbatim>\<open>n or 0\<close>.\<close>

definition or_empty :: "'a list option \<Rightarrow> 'a list" where
  "or_empty xs = (case xs of None \<Rightarrow> [] | Some ys \<Rightarrow> ys)"

definition or_zero :: "int option \<Rightarrow> int" where
  "or_zero n = (case n of None \<Rightarrow> 0 | Some k \<Rightarrow> k)"

text \<open>\<^verbatim>\<open>d.get(key, default)\<close>: only a dict has the method.\<close>

definition py_get :: "pyval \<Rightarrow> string \<Rightarrow> pyval \<Rightarrow> exn + pyval" where
  "py_get d key dflt =
     (case d of
        PDict kvs \<Rightarrow> Inr (case map_of kvs key of None \<Rightarrow> dflt | Some v \<Rightarrow> v)
      | _ \<Rightarrow> Inl (AttributeError (type_name d) ''get''))"

text \<open>\<^verbatim>\<open>xs[0]\<close>.\<close>

definition first_item :: "'a list \<Rightarrow> exn + 'a" where
  "first_item xs = (case xs of [] \<Rightarrow> Inl IndexError | x # _ \<Rightarrow> Inr x)"

text \<open>\<^verbatim>\<open>arguments.get(key)\<close> and \<^verbatim>\<open>arguments.get(key, default)\<close> on the argument bag.\<close>

definition arg_get :: "(string \<rightharpoonup> pyval) \<Rightarrow> string \<Rightarrow> pyval" where
  "arg_get arguments key = (case arguments key of None \<Rightarrow> PNone | Some v \<Rightarrow> v)"

definition arg_get_default :: "(string \<rightharpoonup> pyval) \<Rightarrow> string \<Rightarrow> pyval \<Rightarrow> pyval" where
  "arg_get_default arguments key dflt = (case arguments key of None \<Rightarrow> dflt | Some v \<Rightarrow> v)"

section \<open>Strings\<close>

text \<open>
  \<^verbatim>\<open>s.lower()\<close> on code points below 256: the letters A to Z and the Latin-1 capitals 0xC0 to
  0xDE (0xD7, the multiplication sign, is not one) are moved up by 32 to their small letters;
  every other character is kept.
\<close>

definition upper_chars :: string where
  "upper_chars =
     ''ABCDEFGHIJKLMNOPQRSTUVWXYZ'' @
     [CHR 0xC0, CHR 0xC1, CHR 0xC2, CHR 0xC3, CHR 0xC4, CHR 0xC5, CHR 0xC6, CHR 0xC7,
      CHR 0xC8, CHR 0xC9, CHR 0xCA, CHR 0xCB, CHR 0xCC, CHR 0xCD, CHR 0xCE, CHR 0xCF,
      CHR 0xD0, CHR 0xD1, CHR 0xD2, CHR 0xD3, CHR 0xD4, CHR 0xD5, CHR 0xD6,
      CHR 0xD8, CHR 0xD9, CHR 0xDA, CHR 0xDB, CHR 0xDC, CHR 0xDD, CHR 0xDE]"

definition lower_chars :: string where
  "lower_chars =
     ''abcdefghijklmnopqrstuvwxyz'' @
     [CHR 0xE0, CHR 0xE1, CHR 0xE2, CHR 0xE3, CHR 0xE4, CHR 0xE5, CHR 0xE6, CHR 0xE7,
      CHR 0xE8, CHR 0xE9, CHR 0xEA, CHR 0xEB, CHR 0xEC, CHR 0xED, CHR 0xEE, CHR 0xEF,
      CHR 0xF0, CHR 0xF1, CHR 0xF2, CHR 0xF3, CHR 0xF4, CHR 0xF5, CHR 0xF6,
      CHR 0xF8, CHR 0xF9, CHR 0xFA, CHR 0xFB, CHR 0xFC, CHR 0xFD, CHR 0xFE]"

definition lower_char :: "char \<Rightarrow> char" where
  "lower_char c = (case map_of (zip upper_chars lower_chars) c of None \<Rightarrow> c | Some d \<Rightarrow> d)"

definition lower :: "string \<Rightarrow> string" where
  "lower s = map lower_char s"

text \<open>\<^verbatim>\<open>v.lower()\<close> on a value: only a string has the method.\<close>

definition py_lower :: "pyval \<Rightarrow> exn + string" where
  "py_lower v = (case v of PStr s \<Rightarrow> Inr (lower s) | _ \<Rightarrow> Inl (AttributeError (type_name v) ''lower''))"

text \<open>\<^verbatim>\<open>str(n)\<close> of an integer: decimal digits, with a minus sign below zero.\<close>

fun digits :: "nat \<Rightarrow> string" where
  "digits n =
     (if n < 10 then [''0123456789'' ! n]
      else digits (n div 10) @ [''0123456789'' ! (n mod 10)])"

declare digits.simps [simp del]

definition str_int :: "int \<Rightarrow> string" where
  "str_int i = (if i < 0 then CHR ''-'' # digits (nat (- i)) else digits (nat i))"

definition str_opt_int :: "int option \<Rightarrow> string" where
  "str_opt_int n = (case n of None \<Rightarrow> ''None'' | Some k \<Rightarrow> str_int k)"

definition str_opt :: "string option \<Rightarrow> string" where
  "str_opt s = (case s of None \<Rightarrow> ''None'' | Some t \<Rightarrow> t)"

text \<open>\<^verbatim>\<open>needle in hay\<close> on strings, and \<^verbatim>\<open>s.split(sep)\<close> for a one-character separator.\<close>

fun contains :: "string \<Rightarrow> string \<Rightarrow> bool" where
  "contains needle [] = (needle = [])"
| "contains needle (c # cs) =
     (take (length needle) (c # cs) = needle \<or> contains needle cs)"

fun split :: "char \<Rightarrow> string \<Rightarrow> string list" where
  "split sep [] = [[]]"
| "split sep (c # cs) =
     (if c = sep then [] # split sep cs
      else (case split sep cs of [] \<Rightarrow> [[c]] | w # ws \<Rightarrow> (c # w) # ws))"

definition second_item :: "'a list \<Rightarrow> exn + 'a" where
  "second_item xs = (case xs of _ # y # _ \<Rightarrow> Inr y | _ \<Rightarrow> Inl IndexError)"

fun join :: "string \<Rightarrow> string list \<Rightarrow> string" where
  "join sep [] = []"
| "join sep [x] = x"
| "join sep (x # y # ys) = x @ sep @ join sep (y # ys)"

section \<open>JSON text\<close>

text \<open>
  \<^verbatim>\<open>json.dumps(v, indent=2, default=str)\<close> on plain data. Strings are written between double
  quotes with \<^verbatim>\<open>ensure_ascii\<close> escapes; a non-empty list or dict puts each item on a line of
  its own, two spaces deeper than its bracket; an empty one is \<^verbatim>\<open>[]\<close> or \<^verbatim>\<open>{}\<close>.
\<close>

definition json_escape_char :: "char \<Rightarrow> string" where
  "json_escape_char c =
     (let n = (of_char c :: nat) in
      if c = CHR 0x22 then [CHR 0x5C, CHR 0x22]
      else if c = CHR 0x5C then [CHR 0x5C, CHR 0x5C]
      else if c = CHR 0x0A then [CHR 0x5C, CHR ''n'']
      else if c = CHR 0x0D then [CHR 0x5C, CHR ''r'']
      else if c = CHR 0x09 then [CHR 0x5C, CHR ''t'']
      else if c = CHR 0x08 then [CHR 0x5C, CHR ''b'']
      else if c = CHR 0x0C then [CHR 0x5C, CHR ''f'']
      else if n < 32 \<or> 126 < n then
        [CHR 0x5C, CHR ''u'', CHR ''0'', CHR ''0'',
         ''0123456789abcdef'' ! (n div 16), ''0123456789abcdef'' ! (n mod 16)]
      else [c])"

definition json_string :: "string \<Rightarrow> string" where
  "json_string s = CHR 0x22 # concat (map json_escape_char s) @ [CHR 0x22]"

definition newline_indent :: "nat \<Rightarrow> string" where
  "newline_indent level = CHR 0x0A # replicate (2 * level) CHR '' ''"

fun json_encode :: "nat \<Rightarrow> pyval \<Rightarrow> string"
  and json_items :: "nat \<Rightarrow> pyval list \<Rightarrow> string list"
  and json_members :: "nat \<Rightarrow> (string \<times> pyval) list \<Rightarrow> string list" where
  "json_encode level PNone = ''null''"
| "json_encode level (PBool b) = (if b then ''true'' else ''false'')"
| "json_encode level (PInt i) = str_int i"
| "json_encode level (PStr s) = json_string s"
| "json_encode level (PList xs) =
     (if xs = [] then ''[]''
      else ''['' @ newline_indent (level + 1)
           @ join (CHR '','' # newline_indent (level + 1)) (json_items (level + 1) xs)
           @ newline_indent level @ '']'')"
| "json_encode level (PDict kvs) =
     (if kvs = [] then ''{}''
      else ''{'' @ newline_indent (level + 1)
           @ join (CHR '','' # newline_indent (level + 1)) (json_members (level + 1) kvs)
           @ newline_indent level @ ''}'')"
| "json_items level [] = []"
| "json_items level (x # xs) = json_encode level x # json_items level xs"
| "json_members level [] = []"
| "json_members level ((k, v) # kvs) =
     (json_string k @ '': '' @ json_encode level v) # json_members level kvs"

definition json_dumps :: "pyval \<Rightarrow> string" where
  "json_dumps v = json_encode 0 v"

text \<open>Optional strings, string lists and string dictionaries of an API object as plain data.\<close>

definition opt_str :: "string option \<Rightarrow> pyval" where
  "opt_str s = (case s of None \<Rightarrow> PNone | Some t \<Rightarrow> PStr t)"

definition opt_int :: "int option \<Rightarrow> pyval" where
  "opt_int n = (case n of None \<Rightarrow> PNone | Some k \<Rightarrow> PInt k)"

definition str_dict :: "(string \<times> string) list \<Rightarrow> pyval" where
  "str_dict kvs = PDict (map (\<lambda>(k, v). (k, PStr v)) kvs)"

definition opt_dict :: "(string \<times> string) list option \<Rightarrow> pyval" where
  "opt_dict d = (case d of None \<Rightarrow> PNone | Some kvs \<Rightarrow> str_dict kvs)"

definition opt_str_list :: "string list option \<Rightarrow> pyval" where
  "opt_str_list xs = (case xs of None \<Rightarrow> PNone | Some ys \<Rightarrow> PList (map PStr ys))"

section \<open>Objects of the control plane\<close>

text \<open>
  The typed objects the Kubernetes client returns, with the attributes \<^verbatim>\<open>call_tool\<close> reads.
  An attribute the client may leave \<^verbatim>\<open>None\<close> is an option; an option of an option is a
  sub-object that may be \<^verbatim>\<open>None\<close>, of which one attribute is read (\<open>ns_phase\<close> is
  \<^verbatim>\<open>ns.status.phase\<close>, \<open>depspec_selector\<close> is \<^verbatim>\<open>spec.selector.match_labels\<close>, \<open>depspec_strategy\<close>
  is \<^verbatim>\<open>spec.strategy.type\<close>). \<open>cs_state\<close>, \<open>port_target_port\<close> and
  \<open>meta_creation_timestamp\<close> hold the text \<^verbatim>\<open>str\<close> gives for the attribute.
\<close>

record V1ObjectMeta =
  meta_name :: "string option"
  meta_namespace :: "string option"
  meta_labels :: "(string \<times> string) list option"
  meta_annotations :: "(string \<times> string) list option"
  meta_creation_timestamp :: string

record V1Condition =
  cond_type :: string
  cond_status :: string
  cond_reason :: "string option"

record V1ContainerStatus =
  cs_ready :: bool
  cs_restart_count :: int
  cs_state :: string

record V1Container =
  container_name :: string
  container_image :: "string option"

record V1PodSpec =
  podspec_node_name :: "string option"
  podspec_containers :: "V1Container list"

record V1PodStatus =
  podstatus_phase :: "string option"
  podstatus_container_statuses :: "V1ContainerStatus list option"
  podstatus_pod_ip :: "string option"
  podstatus_conditions :: "V1Condition list option"

record V1Pod =
  pod_metadata :: "V1ObjectMeta option"
  pod_spec :: "V1PodSpec option"
  pod_status :: "V1PodStatus option"

record V1DeploymentSpec =
  depspec_replicas :: "int option"
  depspec_selector :: "(string \<times> string) list option option"
  depspec_strategy :: "string option option"

record V1DeploymentStatus =
  depstatus_ready_replicas :: "int option"
  depstatus_updated_replicas :: "int option"
  depstatus_available_replicas :: "int option"
  depstatus_conditions :: "V1Condition list option"

record V1Deployment =
  dep_metadata :: "V1ObjectMeta option"
  dep_spec :: "V1DeploymentSpec option"
  dep_status :: "V1DeploymentStatus option"

record V1ServicePort =
  port_port :: int
  port_protocol :: "string option"
  port_target_port :: string

record V1ServiceSpec =
  svcspec_type :: "string option"
  svcspec_cluster_ip :: "string option"
  svcspec_external_i_ps :: "string list option"
  svcspec_ports :: "V1ServicePort list option"
  svcspec_selector :: "(string \<times> string) list option"

record V1Service =
  svc_metadata :: "V1ObjectMeta option"
  svc_spec :: "V1ServiceSpec option"

record V1NodeSystemInfo =
  info_kubelet_version :: "string option"
  info_os_image :: "string option"
  info_container_runtime_version :: "string option"

record V1NodeAddress =
  addr_type :: string
  addr_address :: string

record V1NodeStatus =
  nodestatus_conditions :: "V1Condition list option"
  nodestatus_node_info :: "V1NodeSystemInfo option"
  nodestatus_addresses :: "V1NodeAddress list option"
  nodestatus_capacity :: "(string \<times> string) list option"
  nodestatus_allocatable :: "(string \<times> string) list option"

record V1Node =
  node_metadata :: "V1ObjectMeta option"
  node_status :: "V1NodeStatus option"

record V1Namespace =
  ns_metadata :: "V1ObjectMeta option"
  ns_phase :: "string option option"

section \<open>The external collaborators\<close>

text \<open>
  What \<^verbatim>\<open>call_tool\<close> asks of the control plane: one constructor per client method, with the
  arguments passed. The list of calls an invocation made is part of its outcome.
\<close>

datatype call =
    Create_from_yaml "pyval list" pyval
  | Read_namespaced_pod pyval pyval
  | List_namespaced_pod pyval
  | Read_namespaced_deployment pyval pyval
  | List_namespaced_deployment pyval
  | Read_namespaced_service pyval pyval
  | List_namespaced_service pyval
  | Read_node pyval
  | List_node
  | Read_namespace pyval
  | List_namespace
  | Delete_namespaced_pod pyval pyval
  | Delete_namespaced_deployment pyval pyval
  | Delete_namespaced_service pyval pyval

text \<open>
  The libraries \<^verbatim>\<open>call_tool\<close> runs on are parameters: what each client method answers
  (an object, or the exception it raises), what the YAML loader reads from a text, and the
  text \<^verbatim>\<open>str\<close> gives for a list or a dict. \<open>yaml_documents\<close> is what
  \<^verbatim>\<open>list(yaml.safe_load_all(text))\<close> gives, the documents of the stream, or the error raised
  while reading it to its end; \<open>yaml_single_document\<close> is what \<^verbatim>\<open>yaml.safe_load(text)\<close> gives,
  a document (\<^verbatim>\<open>None\<close> for a stream without one), or the error raised. The argument of both is
  the value passed, a string or not. The read and list methods take \<open>name\<close> then \<open>namespace\<close>;
  a list method answers the \<^verbatim>\<open>items\<close> of its list object.
\<close>

record env =
  yaml_documents :: "pyval \<Rightarrow> exn + pyval list"
  yaml_single_document :: "pyval \<Rightarrow> exn + pyval"
  str_container :: "pyval \<Rightarrow> string"
  create_from_yaml :: "pyval list \<Rightarrow> pyval \<Rightarrow> exn + unit"
  read_namespaced_pod :: "pyval \<Rightarrow> pyval \<Rightarrow> exn + V1Pod"
  list_namespaced_pod :: "pyval \<Rightarrow> exn + V1Pod list"
  read_namespaced_deployment :: "pyval \<Rightarrow> pyval \<Rightarrow> exn + V1Deployment"
  list_namespaced_deployment :: "pyval \<Rightarrow> exn + V1Deployment list"
  read_namespaced_service :: "pyval \<Rightarrow> pyval \<Rightarrow> exn + V1Service"
  list_namespaced_service :: "pyval \<Rightarrow> exn + V1Service list"
  read_node :: "pyval \<Rightarrow> exn + V1Node"
  list_node :: "exn + V1Node list"
  read_namespace :: "pyval \<Rightarrow> exn + V1Namespace"
  list_namespace :: "exn + V1Namespace list"
  delete_namespaced_pod :: "pyval \<Rightarrow> pyval \<Rightarrow> exn + unit"
  delete_namespaced_deployment :: "pyval \<Rightarrow> pyval \<Rightarrow> exn + unit"
  delete_namespaced_service :: "pyval \<Rightarrow> pyval \<Rightarrow> exn + unit"

text \<open>\<^verbatim>\<open>str(v)\<close>, as an f-string formats a value.\<close>

definition py_str :: "env \<Rightarrow> pyval \<Rightarrow> string" where
  "py_str e v =
     (case v of
        PNone \<Rightarrow> ''None''
      | PBool b \<Rightarrow> (if b then ''True'' else ''False'')
      | PInt i \<Rightarrow> str_int i
      | PStr s \<Rightarrow> s
      | _ \<Rightarrow> str_container e v)"

text \<open>The two loaders \<^verbatim>\<open>call_tool\<close> uses: apply reads every document, delete a single one.\<close>

definition safe_load_all :: "env \<Rightarrow> pyval \<Rightarrow> exn + pyval list" where
  "safe_load_all e text = yaml_documents e text"

definition safe_load :: "env \<Rightarrow> pyval \<Rightarrow> exn + pyval" where
  "safe_load e text = yaml_single_document e text"

text \<open>
  What PyYAML documents of its single-document loader, as a property of the library the
  environment stands for: on a stream in which \<^verbatim>\<open>safe_load_all\<close> finds more than one document,
  \<^verbatim>\<open>safe_load\<close> raises a ComposerError (\<^verbatim>\<open>expected a single document in the stream\<close>, with the
  positions of the two documents).
\<close>

definition single_document_loader :: "env \<Rightarrow> bool" where
  "single_document_loader e =
     (\<forall>text d d' ds. yaml_documents e text = Inr (d # d' # ds) \<longrightarrow>
        (\<exists>message. yaml_single_document e text = Inl (Raised ''ComposerError'' message)))"

section \<open>The get operation\<close>

text \<open>
  The dict \<^verbatim>\<open>call_tool\<close> appends to \<open>result\<close> for one object. The source writes each dict
  twice, for the named object and inside the loop over the listed ones, with the same
  entries; the attributes are read in the order of the entries.
\<close>

definition pod_summary :: "pyval \<Rightarrow> V1Pod \<Rightarrow> exn + pyval" where
  "pod_summary namespace pod =
     and_then (attr (pod_metadata pod) ''name'') (\<lambda>metadata.
     and_then (attr (pod_status pod) ''phase'') (\<lambda>status.
     and_then (attr (pod_spec pod) ''node_name'') (\<lambda>spec.
       Inr (PDict
         [(''name'', opt_str (meta_name metadata)),
          (''namespace'', namespace),
          (''status'', opt_str (podstatus_phase status)),
          (''ready'',
             PStr (str_int (int (length (filter cs_ready
                                   (or_empty (podstatus_container_statuses status)))))
                   @ ''/''
                   @ str_int (int (length (or_empty (podstatus_container_statuses status)))))),
          (''restarts'',
             PInt (sum_list (map cs_restart_count
                               (or_empty (podstatus_container_statuses status))))),
          (''node'', opt_str (podspec_node_name spec))]))))"

definition deployment_summary :: "pyval \<Rightarrow> V1Deployment \<Rightarrow> exn + pyval" where
  "deployment_summary namespace dep =
     and_then (attr (dep_metadata dep) ''name'') (\<lambda>metadata.
     and_then (attr (dep_status dep) ''ready_replicas'') (\<lambda>status.
     and_then (attr (dep_spec dep) ''replicas'') (\<lambda>spec.
       Inr (PDict
         [(''name'', opt_str (meta_name metadata)),
          (''namespace'', namespace),
          (''ready'',
             PStr (str_int (or_zero (depstatus_ready_replicas status))
                   @ ''/'' @ str_opt_int (depspec_replicas spec))),
          (''up_to_date'', PInt (or_zero (depstatus_updated_replicas status))),
          (''available'', PInt (or_zero (depstatus_available_replicas status)))]))))"

definition service_summary :: "pyval \<Rightarrow> V1Service \<Rightarrow> exn + pyval" where
  "service_summary namespace svc =
     and_then (attr (svc_metadata svc) ''name'') (\<lambda>metadata.
     and_then (attr (svc_spec svc) ''type'') (\<lambda>spec.
       Inr (PDict
         [(''name'', opt_str (meta_name metadata)),
          (''namespace'', namespace),
          (''type'', opt_str (svcspec_type spec)),
          (''cluster_ip'', opt_str (svcspec_cluster_ip spec)),
          (''external_ip'',
             (if or_empty (svcspec_external_i_ps spec) = [] then PStr ''none''
              else PList (map PStr (or_empty (svcspec_external_i_ps spec))))),
          (''ports'',
             PList (map (\<lambda>p. PStr (str_int (port_port p) @ ''/'' @ str_opt (port_protocol p)))
                        (or_empty (svcspec_ports spec))))])))"

text \<open>
  \<^verbatim>\<open>[label.split("/")[1] for label in labels.keys() if "node-role.kubernetes.io" in label]\<close>:
  a matching label with no slash raises IndexError.
\<close>

definition node_roles :: "(string \<times> string) list \<Rightarrow> exn + string list" where
  "node_roles labels =
     map_exn (\<lambda>label. second_item (split CHR ''/'' label))
       (filter (contains ''node-role.kubernetes.io'') (map fst labels))"

text \<open>
  \<^verbatim>\<open>{c.type: c.status for c in conditions}.get("Ready") == "True"\<close>: in the dict the last
  condition of a type wins.
\<close>

definition node_is_ready :: "V1Condition list \<Rightarrow> bool" where
  "node_is_ready conds =
     (map_of (rev (map (\<lambda>c. (cond_type c, cond_status c)) conds)) ''Ready'' = Some ''True'')"

definition node_summary :: "V1Node \<Rightarrow> exn + pyval" where
  "node_summary node =
     and_then (attr (node_status node) ''conditions'') (\<lambda>status.
     and_then (iter (nodestatus_conditions status)) (\<lambda>conditions.
     and_then (attr (node_metadata node) ''name'') (\<lambda>metadata.
     and_then (attr (meta_labels metadata) ''keys'') (\<lambda>labels.
     and_then (node_roles labels) (\<lambda>roles.
     and_then (attr (nodestatus_node_info status) ''kubelet_version'') (\<lambda>node_info.
     and_then (iter (nodestatus_addresses status)) (\<lambda>addresses.
       Inr (PDict
         [(''name'', opt_str (meta_name metadata)),
          (''status'', PStr (if node_is_ready conditions then ''Ready'' else ''NotReady'')),
          (''roles'', PList (map PStr (if roles = [] then [''<none>''] else roles))),
          (''version'', opt_str (info_kubelet_version node_info)),
          (''internal_ip'',
             PStr (case filter (\<lambda>a. addr_type a = ''InternalIP'') addresses of
                     [] \<Rightarrow> []
                   | a # _ \<Rightarrow> addr_address a))]))))))))"

definition namespace_summary :: "V1Namespace \<Rightarrow> exn + pyval" where
  "namespace_summary ns =
     and_then (attr (ns_metadata ns) ''name'') (\<lambda>metadata.
     and_then (attr (ns_phase ns) ''phase'') (\<lambda>phase.
       Inr (PDict
         [(''name'', opt_str (meta_name metadata)),
          (''status'', opt_str phase),
          (''age'', PStr (meta_creation_timestamp metadata))])))"

text \<open>
  The \<^verbatim>\<open>try\<close> block of \<^verbatim>\<open>kubectl_get\<close> up to \<^verbatim>\<open>json.dumps\<close>: the calls made, and the exception
  raised, or \<open>None\<close> for the \<^verbatim>\<open>else\<close> branch (no kind matched), or the list \<open>result\<close>.
\<close>

definition get_result ::
  "env \<Rightarrow> string \<Rightarrow> pyval \<Rightarrow> pyval \<Rightarrow> call list \<times> (exn + pyval list option)" where
  "get_result e resource_type namespace name =
     (if resource_type \<in> set [''pod'', ''pods''] then
        (if truthy name then
           ([Read_namespaced_pod name namespace],
            and_then (read_namespaced_pod e name namespace) (\<lambda>pod.
            and_then (pod_summary namespace pod) (\<lambda>s. Inr (Some [s]))))
         else
           ([List_namespaced_pod namespace],
            and_then (list_namespaced_pod e namespace) (\<lambda>pods.
            and_then (map_exn (pod_summary namespace) pods) (\<lambda>ss. Inr (Some ss)))))
      else if resource_type \<in> set [''deployment'', ''deployments''] then
        (if truthy name then
           ([Read_namespaced_deployment name namespace],
            and_then (read_namespaced_deployment e name namespace) (\<lambda>dep.
            and_then (deployment_summary namespace dep) (\<lambda>s. Inr (Some [s]))))
         else
           ([List_namespaced_deployment namespace],
            and_then (list_namespaced_deployment e namespace) (\<lambda>deployments.
            and_then (map_exn (deployment_summary namespace) deployments) (\<lambda>ss. Inr (Some ss)))))
      else if resource_type \<in> set [''service'', ''services'', ''svc''] then
        (if truthy name then
           ([Read_namespaced_service name namespace],
            and_then (read_namespaced_service e name namespace) (\<lambda>svc.
            and_then (service_summary namespace svc) (\<lambda>s. Inr (Some [s]))))
         else
           ([List_namespaced_service namespace],
            and_then (list_namespaced_service e namespace) (\<lambda>services.
            and_then (map_exn (service_summary namespace) services) (\<lambda>ss. Inr (Some ss)))))
      else if resource_type \<in> set [''node'', ''nodes''] then
        (if truthy name then
           ([Read_node name],
            and_then (read_node e name) (\<lambda>node.
            and_then (node_summary node) (\<lambda>s. Inr (Some [s]))))
         else
           ([List_node],
            and_then (list_node e) (\<lambda>nodes.
            and_then (map_exn node_summary nodes) (\<lambda>ss. Inr (Some ss)))))
      else if resource_type \<in> set [''namespace'', ''namespaces'', ''ns''] then
        (if truthy name then
           ([Read_namespace name],
            and_then (read_namespace e name) (\<lambda>ns.
            and_then (namespace_summary ns) (\<lambda>s. Inr (Some [s]))))
         else
           ([List_namespace],
            and_then (list_namespace e) (\<lambda>namespaces.
            and_then (map_exn namespace_summary namespaces) (\<lambda>ss. Inr (Some ss)))))
      else ([], Inr None))"

text \<open>The text result of a tool call: \<^verbatim>\<open>types.TextContent(type="text", text=...)\<close>.\<close>

datatype content = TextContent string

text \<open>
  An invocation's outcome: the control-plane calls it made, and the exception that left
  \<^verbatim>\<open>call_tool\<close> (\<open>Inl\<close>) or the list it returned (\<open>Inr\<close>).
\<close>

type_synonym outcome = "call list \<times> (exn + content list)"

definition kubectl_get :: "env \<Rightarrow> (string \<rightharpoonup> pyval) \<Rightarrow> outcome" where
  "kubectl_get e arguments =
     (let resource_type = arg_get arguments ''resource_type'' in
      if \<not> truthy resource_type then
        ([], Inr [TextContent ''Error: resource_type is required''])
      else
        (case py_lower resource_type of
           Inl err \<Rightarrow> ([], Inl err)
         | Inr resource_type \<Rightarrow>
             (let namespace = arg_get_default arguments ''namespace'' (PStr ''default'');
                  name = arg_get arguments ''name''
              in case get_result e resource_type namespace name of
                   (calls, Inl err) \<Rightarrow>
                     (calls, Inr [TextContent (''Error getting resource: '' @ exn_str err)])
                 | (calls, Inr None) \<Rightarrow>
                     (calls, Inr [TextContent (''Unsupported resource type: '' @ resource_type)])
                 | (calls, Inr (Some result)) \<Rightarrow>
                     (calls, Inr [TextContent (json_dumps (PList result))]))))"

section \<open>The describe operation\<close>

definition condition_detail :: "V1Condition \<Rightarrow> pyval" where
  "condition_detail c =
     PDict [(''type'', PStr (cond_type c)),
            (''status'', PStr (cond_status c)),
            (''reason'', opt_str (cond_reason c))]"

text \<open>
  One entry of \<^verbatim>\<open>containers\<close>: a container paired by \<^verbatim>\<open>zip\<close> with its status, or with
  \<^verbatim>\<open>None\<close> when the pod lists no statuses.
\<close>

definition container_detail :: "V1Container \<times> V1ContainerStatus option \<Rightarrow> pyval" where
  "container_detail ccs =
     (case ccs of (c, cs) \<Rightarrow>
        PDict [(''name'', PStr (container_name c)),
               (''image'', opt_str (container_image c)),
               (''ready'', PBool (case cs of None \<Rightarrow> False | Some s \<Rightarrow> cs_ready s)),
               (''restart_count'', PInt (case cs of None \<Rightarrow> 0 | Some s \<Rightarrow> cs_restart_count s)),
               (''state'', PStr (case cs of None \<Rightarrow> ''unknown'' | Some s \<Rightarrow> cs_state s))])"

definition pod_detail :: "V1Pod \<Rightarrow> exn + pyval" where
  "pod_detail pod =
     and_then (attr (pod_metadata pod) ''name'') (\<lambda>metadata.
     and_then (attr (pod_status pod) ''phase'') (\<lambda>status.
     and_then (attr (pod_spec pod) ''node_name'') (\<lambda>spec.
       Inr (PDict
         [(''name'', opt_str (meta_name metadata)),
          (''namespace'', opt_str (meta_namespace metadata)),
          (''labels'', opt_dict (meta_labels metadata)),
          (''annotations'', opt_dict (meta_annotations metadata)),
          (''status'', opt_str (podstatus_phase status)),
          (''ip'', opt_str (podstatus_pod_ip status)),
          (''node'', opt_str (podspec_node_name spec)),
          (''containers'',
             PList (map container_detail
                      (zip (podspec_containers spec)
                           (if or_empty (podstatus_container_statuses status) = []
                            then replicate (length (podspec_containers spec)) None
                            else map Some (or_empty (podstatus_container_statuses status)))))),
          (''conditions'', PList (map condition_detail (or_empty (podstatus_conditions status)))),
          (''events'', PStr ''Use kubectl get events for pod events'')]))))"

definition deployment_detail :: "V1Deployment \<Rightarrow> exn + pyval" where
  "deployment_detail dep =
     and_then (attr (dep_metadata dep) ''name'') (\<lambda>metadata.
     and_then (attr (dep_spec dep) ''replicas'') (\<lambda>spec.
     and_then (attr (dep_status dep) ''ready_replicas'') (\<lambda>status.
     and_then (attr (depspec_selector spec) ''match_labels'') (\<lambda>match_labels.
     and_then (attr (depspec_strategy spec) ''type'') (\<lambda>strategy_type.
       Inr (PDict
         [(''name'', opt_str (meta_name metadata)),
          (''namespace'', opt_str (meta_namespace metadata)),
          (''labels'', opt_dict (meta_labels metadata)),
          (''annotations'', opt_dict (meta_annotations metadata)),
          (''replicas'', opt_int (depspec_replicas spec)),
          (''ready_replicas'', PInt (or_zero (depstatus_ready_replicas status))),
          (''available_replicas'', PInt (or_zero (depstatus_available_replicas status))),
          (''updated_replicas'', PInt (or_zero (depstatus_updated_replicas status))),
          (''selector'', opt_dict match_labels),
          (''strategy'', opt_str strategy_type),
          (''conditions'',
             PList (map condition_detail (or_empty (depstatus_conditions status))))]))))))"

definition service_detail :: "V1Service \<Rightarrow> exn + pyval" where
  "service_detail svc =
     and_then (attr (svc_metadata svc) ''name'') (\<lambda>metadata.
     and_then (attr (svc_spec svc) ''type'') (\<lambda>spec.
       Inr (PDict
         [(''name'', opt_str (meta_name metadata)),
          (''namespace'', opt_str (meta_namespace metadata)),
          (''labels'', opt_dict (meta_labels metadata)),
          (''annotations'', opt_dict (meta_annotations metadata)),
          (''type'', opt_str (svcspec_type spec)),
          (''cluster_ip'', opt_str (svcspec_cluster_ip spec)),
          (''external_ips'', opt_str_list (svcspec_external_i_ps spec)),
          (''ports'',
             PList (map (\<lambda>p. PDict [(''port'', PInt (port_port p)),
                                     (''protocol'', opt_str (port_protocol p)),
                                     (''target_port'', PStr (port_target_port p))])
                        (or_empty (svcspec_ports spec)))),
          (''selector'', opt_dict (svcspec_selector spec))])))"

definition node_detail :: "V1Node \<Rightarrow> exn + pyval" where
  "node_detail node =
     and_then (attr (node_metadata node) ''name'') (\<lambda>metadata.
     and_then (attr (node_status node) ''capacity'') (\<lambda>status.
     and_then (attr (nodestatus_node_info status) ''kubelet_version'') (\<lambda>node_info.
       Inr (PDict
         [(''name'', opt_str (meta_name metadata)),
          (''labels'', opt_dict (meta_labels metadata)),
          (''annotations'', opt_dict (meta_annotations metadata)),
          (''capacity'', opt_dict (nodestatus_capacity status)),
          (''allocatable'', opt_dict (nodestatus_allocatable status)),
          (''conditions'',
             PList (map condition_detail (or_empty (nodestatus_conditions status)))),
          (''addresses'',
             PList (map (\<lambda>a. PDict [(''type'', PStr (addr_type a)),
                                     (''address'', PStr (addr_address a))])
                        (or_empty (nodestatus_addresses status)))),
          (''node_info'',
             PDict [(''kubelet_version'', opt_str (info_kubelet_version node_info)),
                    (''os_image'', opt_str (info_os_image node_info)),
                    (''container_runtime'',
                       opt_str (info_container_runtime_version node_info))])]))))"

text \<open>
  The \<^verbatim>\<open>try\<close> block of \<^verbatim>\<open>kubectl_describe\<close> up to \<^verbatim>\<open>json.dumps\<close>: \<open>None\<close> is the \<^verbatim>\<open>else\<close>
  branch. There is no branch for namespaces.
\<close>

definition describe_result ::
  "env \<Rightarrow> string \<Rightarrow> pyval \<Rightarrow> pyval \<Rightarrow> call list \<times> (exn + pyval option)" where
  "describe_result e resource_type namespace name_arg =
     (if resource_type \<in> set [''pod'', ''pods''] then
        ([Read_namespaced_pod name_arg namespace],
         and_then (read_namespaced_pod e name_arg namespace) (\<lambda>pod.
         and_then (pod_detail pod) (\<lambda>d. Inr (Some d))))
      else if resource_type \<in> set [''deployment'', ''deployments''] then
        ([Read_namespaced_deployment name_arg namespace],
         and_then (read_namespaced_deployment e name_arg namespace) (\<lambda>dep.
         and_then (deployment_detail dep) (\<lambda>d. Inr (Some d))))
      else if resource_type \<in> set [''service'', ''services'', ''svc''] then
        ([Read_namespaced_service name_arg namespace],
         and_then (read_namespaced_service e name_arg namespace) (\<lambda>svc.
         and_then (service_detail svc) (\<lambda>d. Inr (Some d))))
      else if resource_type \<in> set [''node'', ''nodes''] then
        ([Read_node name_arg],
         and_then (read_node e name_arg) (\<lambda>node.
         and_then (node_detail node) (\<lambda>d. Inr (Some d))))
      else ([], Inr None))"

definition kubectl_describe :: "env \<Rightarrow> (string \<rightharpoonup> pyval) \<Rightarrow> outcome" where
  "kubectl_describe e arguments =
     (let resource_type = arg_get arguments ''resource_type'' in
      if \<not> truthy resource_type then
        ([], Inr [TextContent ''Error: resource_type is required''])
      else
        (let name_arg = arg_get arguments ''name'' in
         if \<not> truthy name_arg then
           ([], Inr [TextContent ''Error: name is required''])
         else
           (case py_lower resource_type of
              Inl err \<Rightarrow> ([], Inl err)
            | Inr resource_type \<Rightarrow>
                (let namespace = arg_get_default arguments ''namespace'' (PStr ''default'')
                 in case describe_result e resource_type namespace name_arg of
                      (calls, Inl err) \<Rightarrow>
                        (calls, Inr [TextContent (''Error describing resource: '' @ exn_str err)])
                    | (calls, Inr None) \<Rightarrow>
                        (calls, Inr [TextContent (''Unsupported resource type: '' @ resource_type)])
                    | (calls, Inr (Some description)) \<Rightarrow>
                        (calls, Inr [TextContent (json_dumps description)])))))"

section \<open>The apply operation\<close>

text \<open>
  The \<^verbatim>\<open>try\<close> block of \<^verbatim>\<open>kubectl_apply\<close>: all documents are loaded and handed to
  \<^verbatim>\<open>utils.create_from_yaml\<close>; only then is the first document read for the message.
\<close>

definition apply_result :: "env \<Rightarrow> pyval \<Rightarrow> pyval \<Rightarrow> call list \<times> (exn + string)" where
  "apply_result e yaml_content namespace =
     (case safe_load_all e yaml_content of
        Inl err \<Rightarrow> ([], Inl err)
      | Inr docs \<Rightarrow>
          ([Create_from_yaml docs namespace],
           and_then (create_from_yaml e docs namespace) (\<lambda>created.
           and_then (first_item docs) (\<lambda>doc.
           and_then (py_get doc ''metadata'' (PDict [])) (\<lambda>metadata.
           and_then (py_get metadata ''name'' (PStr ''unknown'')) (\<lambda>resource_name.
           and_then (py_get doc ''kind'' (PStr ''unknown'')) (\<lambda>resource_kind.
             Inr (''Successfully applied '' @ py_str e resource_kind
                  @ ''/'' @ py_str e resource_name))))))))"

definition kubectl_apply :: "env \<Rightarrow> (string \<rightharpoonup> pyval) \<Rightarrow> outcome" where
  "kubectl_apply e arguments =
     (let yaml_content = arg_get arguments ''yaml_content'' in
      if \<not> truthy yaml_content then
        ([], Inr [TextContent ''Error: yaml_content is required''])
      else
        (let namespace = arg_get arguments ''namespace''
         in case apply_result e yaml_content namespace of
              (calls, Inl err) \<Rightarrow>
                (calls, Inr [TextContent (''Error applying manifest: '' @ exn_str err)])
            | (calls, Inr text) \<Rightarrow> (calls, Inr [TextContent text])))"

section \<open>The delete operation\<close>

text \<open>
  The statements of the \<^verbatim>\<open>try\<close> block after \<^verbatim>\<open>yaml.safe_load\<close>, for the manifest it
  returned: the three early returns, the namespace (\<^verbatim>\<open>namespace or ...\<close> reads the manifest
  only when the argument is falsy), and the dispatch on the lower-case kind, compared with
  \<^verbatim>\<open>==\<close> to one name per branch.
\<close>

definition delete_manifest :: "env \<Rightarrow> pyval \<Rightarrow> pyval \<Rightarrow> call list \<times> (exn + string)" where
  "delete_manifest e manifest namespace =
     (if \<not> truthy manifest then ([], Inr ''Error: Invalid YAML content'')
      else
        (case and_then (py_get manifest ''metadata'' (PDict [])) (\<lambda>m. py_get m ''name'' PNone) of
           Inl err \<Rightarrow> ([], Inl err)
         | Inr resource_name \<Rightarrow>
             if \<not> truthy resource_name then ([], Inr ''Error: Resource name not found in YAML'')
             else
               (case and_then (py_get manifest ''kind'' (PStr [])) py_lower of
                  Inl err \<Rightarrow> ([], Inl err)
                | Inr resource_kind \<Rightarrow>
                    if resource_kind = [] then ([], Inr ''Error: Resource kind not found in YAML'')
                    else
                      (case (if truthy namespace then Inr namespace
                             else and_then (py_get manifest ''metadata'' (PDict []))
                                    (\<lambda>m. py_get m ''namespace'' (PStr ''default''))) of
                         Inl err \<Rightarrow> ([], Inl err)
                       | Inr resource_namespace \<Rightarrow>
                           (let deleted = (\<lambda>ack. Inr (''Successfully deleted '' @ resource_kind
                                  @ ''/'' @ py_str e resource_name
                                  @ '' from namespace '' @ py_str e resource_namespace))
                            in
                            if resource_kind = ''pod'' then
                              ([Delete_namespaced_pod resource_name resource_namespace],
                               and_then (delete_namespaced_pod e resource_name resource_namespace)
                                 deleted)
                            else if resource_kind = ''deployment'' then
                              ([Delete_namespaced_deployment resource_name resource_namespace],
                               and_then
                                 (delete_namespaced_deployment e resource_name resource_namespace)
                                 deleted)
                            else if resource_kind = ''service'' then
                              ([Delete_namespaced_service resource_name resource_namespace],
                               and_then
                                 (delete_namespaced_service e resource_name resource_namespace)
                                 deleted)
                            else
                              ([], Inr (''Generic deletion not fully implemented for ''
                                        @ resource_kind)))))))"

definition delete_result :: "env \<Rightarrow> pyval \<Rightarrow> pyval \<Rightarrow> call list \<times> (exn + string)" where
  "delete_result e yaml_content namespace =
     (case safe_load e yaml_content of
        Inl err \<Rightarrow> ([], Inl err)
      | Inr manifest \<Rightarrow> delete_manifest e manifest namespace)"

definition kubectl_delete :: "env \<Rightarrow> (string \<rightharpoonup> pyval) \<Rightarrow> outcome" where
  "kubectl_delete e arguments =
     (let yaml_content = arg_get arguments ''yaml_content'' in
      if \<not> truthy yaml_content then
        ([], Inr [TextContent ''Error: yaml_content is required''])
      else
        (let namespace = arg_get arguments ''namespace''
         in case delete_result e yaml_content namespace of
              (calls, Inl err) \<Rightarrow>
                (calls, Inr [TextContent (''Error deleting resource: '' @ exn_str err)])
            | (calls, Inr text) \<Rightarrow> (calls, Inr [TextContent text])))"

section \<open>The tool entry point\<close>

definition call_tool :: "env \<Rightarrow> string \<Rightarrow> (string \<rightharpoonup> pyval) \<Rightarrow> outcome" where
  "call_tool e name arguments =
     (if name = ''kubectl_apply'' then kubectl_apply e arguments
      else if name = ''kubectl_get'' then kubectl_get e arguments
      else if name = ''kubectl_describe'' then kubectl_describe e arguments
      else if name = ''kubectl_delete'' then kubectl_delete e arguments
      else ([], Inl (Raised ''ValueError'' (''Unknown tool: '' @ name))))"

section \<open>The kind router and the resource handlers of the specification\<close>

text \<open>
  The specification's Kind Router, in its own words: a closed set of five kinds, each with a
  canonical name and a fixed alias set, and a resolution that matches a token against the
  alias sets without regard to letter case. \<^verbatim>\<open>call_tool\<close> has no such function; it branches on
  the token in each operation. This definition is what those branches are compared with.
\<close>

datatype ResourceKind = Pod | Deployment | Service | Node | Namespace

fun canonical :: "ResourceKind \<Rightarrow> string" where
  "canonical Pod = ''pod''"
| "canonical Deployment = ''deployment''"
| "canonical Service = ''service''"
| "canonical Node = ''node''"
| "canonical Namespace = ''namespace''"

definition spec_resolve :: "string \<Rightarrow> ResourceKind option" where
  "spec_resolve kind_token =
     (if lower kind_token \<in> set [''pod'', ''pods''] then Some Pod
      else if lower kind_token \<in> set [''deployment'', ''deployments''] then Some Deployment
      else if lower kind_token \<in> set [''service'', ''services'', ''svc''] then Some Service
      else if lower kind_token \<in> set [''node'', ''nodes''] then Some Node
      else if lower kind_token \<in> set [''namespace'', ''namespaces'', ''ns''] then Some Namespace
      else None)"

text \<open>
  The specification's Resource Handlers, as a table indexed by kind: what fetchOne followed by
  summarize, fetchAll followed by summarize on each object, fetchOne followed by detail, and
  deleteOne are for each kind, each as the one control-plane call made and its result. Node and
  Namespace are cluster-scoped and take no namespace. The specification speaks of four kinds
  with a detail handler and names Pod, Deployment and Service as the kinds with a deleteOne;
  the kind without a detail handler is Namespace, as in \<^verbatim>\<open>call_tool\<close>.
\<close>

fun spec_summarize_one :: "env \<Rightarrow> ResourceKind \<Rightarrow> pyval \<Rightarrow> pyval \<Rightarrow> call \<times> (exn + pyval)" where
  "spec_summarize_one e Pod name namespace =
     (Read_namespaced_pod name namespace,
      and_then (read_namespaced_pod e name namespace) (pod_summary namespace))"
| "spec_summarize_one e Deployment name namespace =
     (Read_namespaced_deployment name namespace,
      and_then (read_namespaced_deployment e name namespace) (deployment_summary namespace))"
| "spec_summarize_one e Service name namespace =
     (Read_namespaced_service name namespace,
      and_then (read_namespaced_service e name namespace) (service_summary namespace))"
| "spec_summarize_one e Node name namespace =
     (Read_node name, and_then (read_node e name) node_summary)"
| "spec_summarize_one e Namespace name namespace =
     (Read_namespace name, and_then (read_namespace e name) namespace_summary)"

fun spec_summarize_all :: "env \<Rightarrow> ResourceKind \<Rightarrow> pyval \<Rightarrow> call \<times> (exn + pyval list)" where
  "spec_summarize_all e Pod namespace =
     (List_namespaced_pod namespace,
      and_then (list_namespaced_pod e namespace) (map_exn (pod_summary namespace)))"
| "spec_summarize_all e Deployment namespace =
     (List_namespaced_deployment namespace,
      and_then (list_namespaced_deployment e namespace) (map_exn (deployment_summary namespace)))"
| "spec_summarize_all e Service namespace =
     (List_namespaced_service namespace,
      and_then (list_namespaced_service e namespace) (map_exn (service_summary namespace)))"
| "spec_summarize_all e Node namespace =
     (List_node, and_then (list_node e) (map_exn node_summary))"
| "spec_summarize_all e Namespace namespace =
     (List_namespace, and_then (list_namespace e) (map_exn namespace_summary))"

fun spec_detail_one ::
  "env \<Rightarrow> ResourceKind \<Rightarrow> pyval \<Rightarrow> pyval \<Rightarrow> (call \<times> (exn + pyval)) option" where
  "spec_detail_one e Pod name namespace =
     Some (Read_namespaced_pod name namespace,
           and_then (read_namespaced_pod e name namespace) pod_detail)"
| "spec_detail_one e Deployment name namespace =
     Some (Read_namespaced_deployment name namespace,
           and_then (read_namespaced_deployment e name namespace) deployment_detail)"
| "spec_detail_one e Service name namespace =
     Some (Read_namespaced_service name namespace,
           and_then (read_namespaced_service e name namespace) service_detail)"
| "spec_detail_one e Node name namespace =
     Some (Read_node name, and_then (read_node e name) node_detail)"
| "spec_detail_one e Namespace name namespace = None"

fun spec_delete_one ::
  "env \<Rightarrow> ResourceKind \<Rightarrow> pyval \<Rightarrow> pyval \<Rightarrow> (call \<times> (exn + unit)) option" where
  "spec_delete_one e Pod name namespace =
     Some (Delete_namespaced_pod name namespace, delete_namespaced_pod e name namespace)"
| "spec_delete_one e Deployment name namespace =
     Some (Delete_namespaced_deployment name namespace,
           delete_namespaced_deployment e name namespace)"
| "spec_delete_one e Service name namespace =
     Some (Delete_namespaced_service name namespace, delete_namespaced_service e name namespace)"
| "spec_delete_one e Node name namespace = None"
| "spec_delete_one e Namespace name namespace = None"

section \<open>Example environments\<close>

text \<open>
  Concrete collaborators at which the theorems below are instantiated. In \<open>offline\<close> the
  manifest stream holds no document and every client method raises the same error. In
  \<open>accepting docs\<close> the manifest stream holds one document, the head of \<open>docs\<close>, or none when
  \<open>docs\<close> is empty; the create utility refuses an empty list and accepts any other, and
  every delete succeeds. In \<open>serving\<close> the default namespace holds two pods: \<open>web\<close>, running
  with one of its two containers ready, and \<open>job\<close>, pending with no container statuses yet.
  \<open>parsing table\<close> is \<open>accepting\<close> with loaders that answer from \<open>table\<close>: for a manifest text,
  what \<^verbatim>\<open>list(yaml.safe_load_all(text))\<close> gives and what \<^verbatim>\<open>yaml.safe_load(text)\<close> gives.
  \<open>two_documents\<close> is a text of two manifests with the answers PyYAML 6.0 gives for it.
\<close>

definition unavailable :: exn where
  "unavailable = Raised ''ApiException'' ''(503) Service Unavailable''"

definition offline :: env where
  "offline =
     \<lparr> yaml_documents = (\<lambda>text. Inr []),
       yaml_single_document = (\<lambda>text. Inr PNone),
       str_container = (\<lambda>v. ''...''),
       create_from_yaml = (\<lambda>docs namespace. Inl unavailable),
       read_namespaced_pod = (\<lambda>name namespace. Inl unavailable),
       list_namespaced_pod = (\<lambda>namespace. Inl unavailable),
       read_namespaced_deployment = (\<lambda>name namespace. Inl unavailable),
       list_namespaced_deployment = (\<lambda>namespace. Inl unavailable),
       read_namespaced_service = (\<lambda>name namespace. Inl unavailable),
       list_namespaced_service = (\<lambda>namespace. Inl unavailable),
       read_node = (\<lambda>name. Inl unavailable),
       list_node = Inl unavailable,
       read_namespace = (\<lambda>name. Inl unavailable),
       list_namespace = Inl unavailable,
       delete_namespaced_pod = (\<lambda>name namespace. Inl unavailable),
       delete_namespaced_deployment = (\<lambda>name namespace. Inl unavailable),
       delete_namespaced_service = (\<lambda>name namespace. Inl unavailable) \<rparr>"

definition web_manifest :: pyval where
  "web_manifest =
     PDict [(''kind'', PStr ''Pod''), (''metadata'', PDict [(''name'', PStr ''web'')])]"

definition db_manifest :: pyval where
  "db_manifest =
     PDict [(''kind'', PStr ''Service''), (''metadata'', PDict [(''name'', PStr ''db'')])]"

definition accepting :: "pyval list \<Rightarrow> env" where
  "accepting docs =
     offline
       \<lparr> yaml_documents := (\<lambda>text. Inr (take 1 docs)),
         yaml_single_document := (\<lambda>text. case docs of [] \<Rightarrow> Inr PNone | d # ds \<Rightarrow> Inr d),
         create_from_yaml := (\<lambda>objects namespace.
           if objects = [] then
             Inl (Raised ''ValueError''
                    ''One of yaml_file or yaml_objects arguments must be provided'')
           else Inr ()),
         delete_namespaced_pod := (\<lambda>name namespace. Inr ()),
         delete_namespaced_deployment := (\<lambda>name namespace. Inr ()),
         delete_namespaced_service := (\<lambda>name namespace. Inr ()) \<rparr>"

definition web_metadata :: V1ObjectMeta where
  "web_metadata =
     \<lparr> meta_name = Some ''web'', meta_namespace = Some ''default'', meta_labels = None,
       meta_annotations = None, meta_creation_timestamp = ''2024-05-01 10:00:00+00:00'' \<rparr>"

definition web_spec :: V1PodSpec where
  "web_spec =
     \<lparr> podspec_node_name = Some ''node-1'',
       podspec_containers =
         [\<lparr> container_name = ''app'', container_image = Some ''nginx'' \<rparr>,
          \<lparr> container_name = ''sidecar'', container_image = Some ''envoy'' \<rparr>] \<rparr>"

definition web_container_statuses :: "V1ContainerStatus list" where
  "web_container_statuses =
     [\<lparr> cs_ready = True, cs_restart_count = 0, cs_state = ''running'' \<rparr>,
      \<lparr> cs_ready = False, cs_restart_count = 3, cs_state = ''waiting'' \<rparr>]"

definition web_status :: V1PodStatus where
  "web_status =
     \<lparr> podstatus_phase = Some ''Running'',
       podstatus_container_statuses = Some web_container_statuses,
       podstatus_pod_ip = Some ''10.0.0.7'',
       podstatus_conditions = None \<rparr>"

definition web_pod :: V1Pod where
  "web_pod =
     \<lparr> pod_metadata = Some web_metadata, pod_spec = Some web_spec,
       pod_status = Some web_status \<rparr>"

definition pending_pod :: V1Pod where
  "pending_pod =
     \<lparr> pod_metadata = Some
         \<lparr> meta_name = Some ''job'', meta_namespace = Some ''default'', meta_labels = None,
           meta_annotations = None, meta_creation_timestamp = ''2024-05-01 10:05:00+00:00'' \<rparr>,
       pod_spec = Some
         \<lparr> podspec_node_name = None,
           podspec_containers = [\<lparr> container_name = ''run'', container_image = Some ''busybox'' \<rparr>] \<rparr>,
       pod_status = Some
         \<lparr> podstatus_phase = Some ''Pending'',
           podstatus_container_statuses = None,
           podstatus_pod_ip = None,
           podstatus_conditions = None \<rparr> \<rparr>"

definition serving :: env where
  "serving =
     offline
       \<lparr> read_namespaced_pod := (\<lambda>name namespace.
           if name = PStr ''web'' then Inr web_pod
           else if name = PStr ''job'' then Inr pending_pod
           else Inl (Raised ''ApiException'' ''(404) Not Found'')),
         list_namespaced_pod := (\<lambda>namespace. Inr [web_pod, pending_pod]) \<rparr>"

definition parsing :: "(pyval \<times> (exn + pyval list) \<times> (exn + pyval)) list \<Rightarrow> env" where
  "parsing table =
     (accepting [])
       \<lparr> yaml_documents := (\<lambda>text. case map_of table text of
                                       None \<Rightarrow> Inr []
                                     | Some (documents, single) \<Rightarrow> documents),
         yaml_single_document := (\<lambda>text. case map_of table text of
                                             None \<Rightarrow> Inr PNone
                                           | Some (documents, single) \<Rightarrow> single) \<rparr>"

definition two_documents :: pyval where
  "two_documents =
     PStr (''{kind: Pod, metadata: {name: web}}'' @ [CHR 0x0A] @ ''---'' @ [CHR 0x0A]
           @ ''{kind: Service, metadata: {name: db}}'' @ [CHR 0x0A])"

definition two_documents_error :: exn where
  "two_documents_error =
     Raised ''ComposerError''
       (''expected a single document in the stream'' @ [CHR 0x0A]
        @ ''  in '' @ [CHR 0x22] @ ''<unicode string>'' @ [CHR 0x22] @ '', line 1, column 1:''
        @ [CHR 0x0A] @ ''    {kind: Pod, metadata: {name: web}}'' @ [CHR 0x0A] @ ''    ^''
        @ [CHR 0x0A] @ ''but found another document'' @ [CHR 0x0A]
        @ ''  in '' @ [CHR 0x22] @ ''<unicode string>'' @ [CHR 0x22] @ '', line 2, column 1:''
        @ [CHR 0x0A] @ ''    ---'' @ [CHR 0x0A] @ ''    ^'')"

definition manifests :: "(pyval \<times> (exn + pyval list) \<times> (exn + pyval)) list" where
  "manifests =
     [(two_documents, Inr [web_manifest, db_manifest], Inl two_documents_error),
      (PStr ''{kind: Pod, metadata: {name: web}}'', Inr [web_manifest], Inr web_manifest),
      (PStr ''{kind: pods, metadata: {name: web}}'',
       Inr [PDict [(''kind'', PStr ''pods''), (''metadata'', PDict [(''name'', PStr ''web'')])]],
       Inr (PDict [(''kind'', PStr ''pods''), (''metadata'', PDict [(''name'', PStr ''web'')])])),
      (PStr ''{kind: Node, metadata: {name: worker-1}}'',
       Inr [PDict [(''kind'', PStr ''Node''),
                   (''metadata'', PDict [(''name'', PStr ''worker-1'')])]],
       Inr (PDict [(''kind'', PStr ''Node''),
                   (''metadata'', PDict [(''name'', PStr ''worker-1'')])])),
      (PStr ''{kind: Node}'',
       Inr [PDict [(''kind'', PStr ''Node'')]],
       Inr (PDict [(''kind'', PStr ''Node'')]))]"

section \<open>Basic facts\<close>

lemma and_then_Inr_iff: "and_then m f = Inr y \<longleftrightarrow> (\<exists>x. m = Inr x \<and> f x = Inr y)"
  by (cases m) auto

lemma map_exn_length: "map_exn f xs = Inr ys \<Longrightarrow> length ys = length xs"
  by (induction xs arbitrary: ys) (auto simp: and_then_Inr_iff)

lemma lower_Nil_iff: "lower s = [] \<longleftrightarrow> s = []"
  by (simp add: lower_def)

lemma lower_examples:
  "lower ''Pod'' = ''pod''" "lower ''POD'' = ''pod''" "lower ''pod'' = ''pod''"
  "lower ''pods'' = ''pods''" "lower ''Pods'' = ''pods''" "lower ''SVC'' = ''svc''"
  "lower ''ns'' = ''ns''" "lower ''Node'' = ''node''" "lower ''ConfigMap'' = ''configmap''"
  by (simp_all add: lower_def lower_char_def upper_chars_def lower_chars_def)

lemma str_int_small: "str_int 0 = ''0''" "str_int 1 = ''1''" "str_int 2 = ''2''"
  by (simp_all add: str_int_def digits.simps)

lemma accepting_documents: "yaml_documents (accepting docs) text = Inr (take 1 docs)"
  by (simp add: accepting_def)

lemma call_tool_ops:
  "call_tool e ''kubectl_apply'' arguments = kubectl_apply e arguments"
  "call_tool e ''kubectl_get'' arguments = kubectl_get e arguments"
  "call_tool e ''kubectl_describe'' arguments = kubectl_describe e arguments"
  "call_tool e ''kubectl_delete'' arguments = kubectl_delete e arguments"
  by (simp_all add: call_tool_def)

section \<open>Validation of required arguments\<close>

text \<open>
  C7. For each of the four operations, when a required argument is absent from the argument
  bag (\<open>yaml_content\<close> for apply and delete, \<open>resource_type\<close> for get and describe, \<open>name\<close> for
  describe), the invocation returns a validation-error text at once and the list of
  control-plane calls is empty. A describe without \<open>name\<close> reports the missing
  \<open>resource_type\<close> first when that one is missing (or falsy) too.
\<close>

theorem missing_required_argument:
  "(arguments ''yaml_content'' = None \<longrightarrow>
      call_tool e ''kubectl_apply'' arguments =
        ([], Inr [TextContent ''Error: yaml_content is required'']))
   \<and> (arguments ''resource_type'' = None \<longrightarrow>
      call_tool e ''kubectl_get'' arguments =
        ([], Inr [TextContent ''Error: resource_type is required'']))
   \<and> (arguments ''resource_type'' = None \<longrightarrow>
      call_tool e ''kubectl_describe'' arguments =
        ([], Inr [TextContent ''Error: resource_type is required'']))
   \<and> (arguments ''name'' = None \<longrightarrow>
      call_tool e ''kubectl_describe'' arguments =
        ([], Inr [TextContent
           (if truthy (arg_get arguments ''resource_type'') then ''Error: name is required''
            else ''Error: resource_type is required'')]))
   \<and> (arguments ''yaml_content'' = None \<longrightarrow>
      call_tool e ''kubectl_delete'' arguments =
        ([], Inr [TextContent ''Error: yaml_content is required'']))"
  by (simp add: call_tool_def kubectl_apply_def kubectl_get_def kubectl_describe_def
        kubectl_delete_def arg_get_def Let_def)

theorem missing_required_argument_witness:
  "call_tool offline ''kubectl_apply'' [''namespace'' \<mapsto> PStr ''prod''] =
     ([], Inr [TextContent ''Error: yaml_content is required''])
   \<and> call_tool offline ''kubectl_get'' [''name'' \<mapsto> PStr ''web''] =
     ([], Inr [TextContent ''Error: resource_type is required''])
   \<and> call_tool offline ''kubectl_describe'' [''name'' \<mapsto> PStr ''web''] =
     ([], Inr [TextContent ''Error: resource_type is required''])
   \<and> call_tool offline ''kubectl_describe'' [''resource_type'' \<mapsto> PStr ''pod''] =
     ([], Inr [TextContent ''Error: name is required''])
   \<and> call_tool offline ''kubectl_delete'' Map.empty =
     ([], Inr [TextContent ''Error: yaml_content is required''])"
  using missing_required_argument [of "[''namespace'' \<mapsto> PStr ''prod'']" offline]
    missing_required_argument [of "[''name'' \<mapsto> PStr ''web'']" offline]
    missing_required_argument [of "[''resource_type'' \<mapsto> PStr ''pod'']" offline]
    missing_required_argument [of Map.empty offline]
  by (simp add: arg_get_def)

text \<open>
  C10. A required argument that is present but empty is treated as an absent one: with
  \<open>yaml_content\<close> (apply, delete), \<open>resource_type\<close> (get, describe) or \<open>name\<close> (describe) equal
  to the empty string, the invocation returns the same validation-error text and makes no
  control-plane call, and its outcome is the outcome of the same bag without the key. The test
  is \<^verbatim>\<open>if not value\<close>, a test of truthiness, not of key membership.
\<close>

theorem empty_required_argument:
  "(arguments ''yaml_content'' = Some (PStr []) \<longrightarrow>
      call_tool e ''kubectl_apply'' arguments =
        ([], Inr [TextContent ''Error: yaml_content is required''])
      \<and> call_tool e ''kubectl_apply'' arguments =
          call_tool e ''kubectl_apply'' (arguments(''yaml_content'' := None)))
   \<and> (arguments ''yaml_content'' = Some (PStr []) \<longrightarrow>
      call_tool e ''kubectl_delete'' arguments =
        ([], Inr [TextContent ''Error: yaml_content is required''])
      \<and> call_tool e ''kubectl_delete'' arguments =
          call_tool e ''kubectl_delete'' (arguments(''yaml_content'' := None)))
   \<and> (arguments ''resource_type'' = Some (PStr []) \<longrightarrow>
      call_tool e ''kubectl_get'' arguments =
        ([], Inr [TextContent ''Error: resource_type is required''])
      \<and> call_tool e ''kubectl_get'' arguments =
          call_tool e ''kubectl_get'' (arguments(''resource_type'' := None)))
   \<and> (arguments ''resource_type'' = Some (PStr []) \<longrightarrow>
      call_tool e ''kubectl_describe'' arguments =
        ([], Inr [TextContent ''Error: resource_type is required''])
      \<and> call_tool e ''kubectl_describe'' arguments =
          call_tool e ''kubectl_describe'' (arguments(''resource_type'' := None)))
   \<and> (arguments ''name'' = Some (PStr []) \<longrightarrow>
      call_tool e ''kubectl_describe'' arguments =
        ([], Inr [TextContent
           (if truthy (arg_get arguments ''resource_type'') then ''Error: name is required''
            else ''Error: resource_type is required'')])
      \<and> call_tool e ''kubectl_describe'' arguments =
          call_tool e ''kubectl_describe'' (arguments(''name'' := None)))"
  by (simp add: call_tool_def kubectl_apply_def kubectl_get_def kubectl_describe_def
        kubectl_delete_def arg_get_def Let_def)

theorem empty_required_argument_witness:
  "call_tool offline ''kubectl_apply'' [''yaml_content'' \<mapsto> PStr []] =
     ([], Inr [TextContent ''Error: yaml_content is required''])
   \<and> call_tool offline ''kubectl_delete'' [''yaml_content'' \<mapsto> PStr []] =
     ([], Inr [TextContent ''Error: yaml_content is required''])
   \<and> call_tool offline ''kubectl_get'' [''resource_type'' \<mapsto> PStr []] =
     ([], Inr [TextContent ''Error: resource_type is required''])
   \<and> call_tool offline ''kubectl_describe'' [''resource_type'' \<mapsto> PStr []] =
     ([], Inr [TextContent ''Error: resource_type is required''])
   \<and> call_tool offline ''kubectl_describe''
        [''resource_type'' \<mapsto> PStr ''pod'', ''name'' \<mapsto> PStr []] =
     ([], Inr [TextContent ''Error: name is required''])"
  using empty_required_argument [of "[''yaml_content'' \<mapsto> PStr []]" offline]
    empty_required_argument [of "[''resource_type'' \<mapsto> PStr []]" offline]
    empty_required_argument
      [of "[''resource_type'' \<mapsto> PStr ''pod'', ''name'' \<mapsto> PStr []]" offline]
  by (simp add: arg_get_def)

section \<open>Apply\<close>

text \<open>
  C3. What \<^verbatim>\<open>kubectl_apply\<close> does when \<open>yaml_content\<close> parses to an empty document sequence:
  there is no test for it, the empty list is handed to the create utility, and the result is
  the generic \<^verbatim>\<open>Error applying manifest: \<close> text, with the utility's message when it raises and
  with the IndexError of \<^verbatim>\<open>docs[0]\<close> when it does not. The claim asks for a distinct
  empty-manifest result before any create call, as the delete operation gives
  (\<^verbatim>\<open>Error: Invalid YAML content\<close>).
\<close>

theorem apply_empty_manifest:
  assumes "truthy (arg_get arguments ''yaml_content'')"
    and "yaml_documents e (arg_get arguments ''yaml_content'') = Inr []"
  shows "call_tool e ''kubectl_apply'' arguments =
           ([Create_from_yaml [] (arg_get arguments ''namespace'')],
            Inr [TextContent (''Error applying manifest: '' @
              (case create_from_yaml e [] (arg_get arguments ''namespace'') of
                 Inl err \<Rightarrow> exn_str err
               | Inr created \<Rightarrow> ''list index out of range''))])"
  using assms
  by (cases "create_from_yaml e [] (arg_get arguments ''namespace'')")
     (simp_all add: call_tool_def kubectl_apply_def apply_result_def safe_load_all_def Let_def
        first_item_def IndexError_def)

theorem apply_empty_manifest_witness:
  "call_tool (accepting []) ''kubectl_apply''
     [''yaml_content'' \<mapsto> PStr ''# nothing to apply''] =
     ([Create_from_yaml [] PNone],
      Inr [TextContent
        ''Error applying manifest: One of yaml_file or yaml_objects arguments must be provided''])"
  using apply_empty_manifest
    [of "[''yaml_content'' \<mapsto> PStr ''# nothing to apply'']" "accepting []"]
  by (simp add: arg_get_def accepting_documents)
     (simp add: accepting_def)

section \<open>Get\<close>

text \<open>
  C8. For a pod read by name whose status lists two container statuses of which exactly one
  is ready, the \<open>ready\<close> field of the summary get returns is the string \<^verbatim>\<open>1/2\<close>; for a pod
  whose container statuses are absent it is the string \<^verbatim>\<open>0/0\<close>. The invocation returns the
  JSON text holding that summary: the fraction is formatted, never divided.
\<close>

theorem pod_ready_fraction:
  assumes "arguments ''resource_type'' = Some (PStr token)"
    and "lower token \<in> set [''pod'', ''pods'']"
    and "truthy (arg_get arguments ''name'')"
    and "read_namespaced_pod e (arg_get arguments ''name'')
           (arg_get_default arguments ''namespace'' (PStr ''default'')) = Inr pod"
    and "pod_metadata pod = Some metadata"
    and "pod_spec pod = Some spec"
    and "pod_status pod = Some status"
  shows "\<exists>entries.
           call_tool e ''kubectl_get'' arguments =
             ([Read_namespaced_pod (arg_get arguments ''name'')
                 (arg_get_default arguments ''namespace'' (PStr ''default''))],
              Inr [TextContent (json_dumps (PList [PDict entries]))])
         \<and> pod_summary (arg_get_default arguments ''namespace'' (PStr ''default'')) pod =
             Inr (PDict entries)
         \<and> (\<forall>statuses. podstatus_container_statuses status = Some statuses
                \<and> length statuses = 2 \<and> length (filter cs_ready statuses) = 1 \<longrightarrow>
              map_of entries ''ready'' = Some (PStr ''1/2''))
         \<and> (podstatus_container_statuses status = None \<longrightarrow>
              map_of entries ''ready'' = Some (PStr ''0/0''))"
proof -
  let ?ns = "arg_get_default arguments ''namespace'' (PStr ''default'')"
  let ?statuses = "or_empty (podstatus_container_statuses status)"
  let ?entries =
    "[(''name'', opt_str (meta_name metadata)),
      (''namespace'', ?ns),
      (''status'', opt_str (podstatus_phase status)),
      (''ready'', PStr (str_int (int (length (filter cs_ready ?statuses))) @ ''/''
                        @ str_int (int (length ?statuses)))),
      (''restarts'', PInt (sum_list (map cs_restart_count ?statuses))),
      (''node'', opt_str (podspec_node_name spec))]"
  have summary: "pod_summary ?ns pod = Inr (PDict ?entries)"
    using assms(5-7) by (simp add: pod_summary_def attr_def)
  have "token \<noteq> []"
    using assms(2) by (auto simp: lower_def)
  moreover have "get_result e (lower token) ?ns (arg_get arguments ''name'') =
      ([Read_namespaced_pod (arg_get arguments ''name'') ?ns], Inr (Some [PDict ?entries]))"
    using assms(2-4) summary by (simp add: get_result_def)
  ultimately have "call_tool e ''kubectl_get'' arguments =
      ([Read_namespaced_pod (arg_get arguments ''name'') ?ns],
       Inr [TextContent (json_dumps (PList [PDict ?entries]))])"
    using assms(1)
    by (simp add: call_tool_def kubectl_get_def arg_get_def Let_def py_lower_def)
  moreover have "\<forall>statuses. podstatus_container_statuses status = Some statuses
                \<and> length statuses = 2 \<and> length (filter cs_ready statuses) = 1 \<longrightarrow>
              map_of ?entries ''ready'' = Some (PStr ''1/2'')"
    by (simp add: or_empty_def str_int_small)
  moreover have "podstatus_container_statuses status = None \<longrightarrow>
              map_of ?entries ''ready'' = Some (PStr ''0/0'')"
    by (simp add: or_empty_def str_int_small)
  ultimately show ?thesis
    using summary by (intro exI [of _ ?entries] conjI)
qed

theorem pod_ready_fraction_witness:
  "\<exists>entries.
     call_tool serving ''kubectl_get''
       [''resource_type'' \<mapsto> PStr ''pod'', ''name'' \<mapsto> PStr ''web''] =
       ([Read_namespaced_pod (PStr ''web'') (PStr ''default'')],
        Inr [TextContent (json_dumps (PList [PDict entries]))])
     \<and> map_of entries ''ready'' = Some (PStr ''1/2'')"
proof -
  let ?args = "[''resource_type'' \<mapsto> PStr ''pod'', ''name'' \<mapsto> PStr ''web'']"
  have name: "arg_get ?args ''name'' = PStr ''web''"
    and ns: "arg_get_default ?args ''namespace'' (PStr ''default'') = PStr ''default''"
    by (simp_all add: arg_get_def arg_get_default_def)
  have h1: "?args ''resource_type'' = Some (PStr ''pod'')" by simp
  have h2: "lower ''pod'' \<in> set [''pod'', ''pods'']" by (simp add: lower_examples)
  have h3: "truthy (arg_get ?args ''name'')" by (simp add: name)
  have h4: "read_namespaced_pod serving (arg_get ?args ''name'')
              (arg_get_default ?args ''namespace'' (PStr ''default'')) = Inr web_pod"
    by (simp add: name ns serving_def)
  have h5: "pod_metadata web_pod = Some web_metadata"
    and h6: "pod_spec web_pod = Some web_spec"
    and h7: "pod_status web_pod = Some web_status"
    by (simp_all add: web_pod_def)
  obtain entries where
    a: "call_tool serving ''kubectl_get'' ?args =
          ([Read_namespaced_pod (arg_get ?args ''name'')
              (arg_get_default ?args ''namespace'' (PStr ''default''))],
           Inr [TextContent (json_dumps (PList [PDict entries]))])"
    and b: "\<forall>statuses. podstatus_container_statuses web_status = Some statuses
              \<and> length statuses = 2 \<and> length (filter cs_ready statuses) = 1 \<longrightarrow>
            map_of entries ''ready'' = Some (PStr ''1/2'')"
    using pod_ready_fraction [OF h1 h2 h3 h4 h5 h6 h7] by blast
  have "podstatus_container_statuses web_status = Some web_container_statuses
        \<and> length web_container_statuses = 2
        \<and> length (filter cs_ready web_container_statuses) = 1"
    by (simp add: web_status_def web_container_statuses_def)
  with b have "map_of entries ''ready'' = Some (PStr ''1/2'')" by blast
  with a show ?thesis by (simp only: name ns) blast
qed

section \<open>Delete\<close>

lemma parsing_manifests:
  "yaml_documents (parsing manifests) two_documents = Inr [web_manifest, db_manifest]"
  "yaml_single_document (parsing manifests) two_documents = Inl two_documents_error"
  "yaml_single_document (parsing manifests) (PStr ''{kind: Pod, metadata: {name: web}}'') =
     Inr web_manifest"
  "yaml_single_document (parsing manifests) (PStr ''{kind: pods, metadata: {name: web}}'') =
     Inr (PDict [(''kind'', PStr ''pods''), (''metadata'', PDict [(''name'', PStr ''web'')])])"
  "yaml_single_document (parsing manifests) (PStr ''{kind: Node, metadata: {name: worker-1}}'') =
     Inr (PDict [(''kind'', PStr ''Node''),
                 (''metadata'', PDict [(''name'', PStr ''worker-1'')])])"
  "yaml_single_document (parsing manifests) (PStr ''{kind: Node}'') =
     Inr (PDict [(''kind'', PStr ''Node'')])"
  by (simp_all add: parsing_def manifests_def two_documents_def)

lemma parsing_manifests_loader: "single_document_loader (parsing manifests)"
  by (auto simp: single_document_loader_def parsing_def manifests_def two_documents_error_def
        split: if_splits)

lemma parsing_deletes:
  "delete_namespaced_pod (parsing table) name namespace = Inr ()"
  by (simp add: parsing_def accepting_def)

lemma delete_raises:
  assumes "truthy (arg_get arguments ''yaml_content'')"
    and "safe_load e (arg_get arguments ''yaml_content'') = Inl err"
  shows "call_tool e ''kubectl_delete'' arguments =
           ([], Inr [TextContent (''Error deleting resource: '' @ exn_str err)])"
  using assms by (simp add: call_tool_ops kubectl_delete_def delete_result_def Let_def)

lemma delete_loaded:
  assumes "truthy (arg_get arguments ''yaml_content'')"
    and "safe_load e (arg_get arguments ''yaml_content'') = Inr manifest"
    and "delete_manifest e manifest (arg_get arguments ''namespace'') = (calls, r)"
  shows "call_tool e ''kubectl_delete'' arguments =
           (calls, Inr [TextContent
              (case r of Inl err \<Rightarrow> ''Error deleting resource: '' @ exn_str err
                       | Inr text \<Rightarrow> text)])"
  using assms
  by (cases r) (simp_all add: call_tool_ops kubectl_delete_def delete_result_def Let_def)

lemma delete_manifest_kind:
  assumes "map_of manifest ''kind'' = Some (PStr kind)"
  shows "delete_manifest e (PDict manifest) namespace =
     (case and_then (py_get (PDict manifest) ''metadata'' (PDict []))
             (\<lambda>m. py_get m ''name'' PNone) of
        Inl err \<Rightarrow> ([], Inl err)
      | Inr resource_name \<Rightarrow>
          if \<not> truthy resource_name then ([], Inr ''Error: Resource name not found in YAML'')
          else if lower kind = [] then ([], Inr ''Error: Resource kind not found in YAML'')
          else
            (case (if truthy namespace then Inr namespace
                   else and_then (py_get (PDict manifest) ''metadata'' (PDict []))
                          (\<lambda>m. py_get m ''namespace'' (PStr ''default''))) of
               Inl err \<Rightarrow> ([], Inl err)
             | Inr resource_namespace \<Rightarrow>
                 (let deleted = (\<lambda>ack. Inr (''Successfully deleted '' @ lower kind
                        @ ''/'' @ py_str e resource_name
                        @ '' from namespace '' @ py_str e resource_namespace))
                  in
                  if lower kind = ''pod'' then
                    ([Delete_namespaced_pod resource_name resource_namespace],
                     and_then (delete_namespaced_pod e resource_name resource_namespace) deleted)
                  else if lower kind = ''deployment'' then
                    ([Delete_namespaced_deployment resource_name resource_namespace],
                     and_then (delete_namespaced_deployment e resource_name resource_namespace)
                       deleted)
                  else if lower kind = ''service'' then
                    ([Delete_namespaced_service resource_name resource_namespace],
                     and_then (delete_namespaced_service e resource_name resource_namespace)
                       deleted)
                  else
                    ([], Inr (''Generic deletion not fully implemented for '' @ lower kind)))))"
proof -
  have b: "and_then (py_get (PDict manifest) ''kind'' (PStr [])) py_lower = Inr (lower kind)"
    using assms by (simp add: py_get_def py_lower_def)
  have c: "truthy (PDict manifest)"
    using assms by auto
  show ?thesis
    unfolding delete_manifest_def b
    by (simp only: c not_True_eq_False if_False sum.case)
qed

lemma delete_manifest_named:
  assumes "map_of manifest ''metadata'' = Some (PDict metadata)"
    and "map_of metadata ''name'' = Some resource_name"
  shows "and_then (py_get (PDict manifest) ''metadata'' (PDict [])) (\<lambda>m. py_get m ''name'' PNone)
           = Inr resource_name"
    and "and_then (py_get (PDict manifest) ''metadata'' (PDict []))
           (\<lambda>m. py_get m ''namespace'' (PStr ''default'')) =
         Inr (case map_of metadata ''namespace'' of None \<Rightarrow> PStr ''default'' | Some v \<Rightarrow> v)"
  using assms by (simp_all add: py_get_def)

lemma delete_manifest_no_metadata:
  assumes "map_of manifest ''metadata'' = None"
  shows "and_then (py_get (PDict manifest) ''metadata'' (PDict [])) (\<lambda>m. py_get m ''name'' PNone)
           = Inr PNone"
  using assms by (simp add: py_get_def)

lemma delete_other_kind_no_call:
  assumes "map_of manifest ''kind'' = Some (PStr kind)"
    and "lower kind \<notin> set [''pod'', ''deployment'', ''service'']"
  shows "fst (delete_manifest e (PDict manifest) namespace) = []"
  using assms(2)
  by (simp add: delete_manifest_kind [OF assms(1)] Let_def split: sum.splits)

text \<open>
  C9, as amended. For a delete whose manifest, the document \<^verbatim>\<open>yaml.safe_load\<close> returns for a
  truthy \<open>yaml_content\<close>, is a mapping with a string \<open>kind\<close> other than pod, deployment or
  service in any letter case (Node and Namespace among them), no control-plane call is made.
  The name is tested before the kind: when the kind is not empty and \<open>metadata\<close> is a mapping
  with a truthy \<open>name\<close>, the returned text is \<^verbatim>\<open>Generic deletion not fully implemented for \<close>
  followed by the kind in lower case; for a manifest without \<open>metadata\<close> it is
  \<^verbatim>\<open>Error: Resource name not found in YAML\<close>.
\<close>

theorem delete_unsupported_kind:
  assumes "truthy (arg_get arguments ''yaml_content'')"
    and "safe_load e (arg_get arguments ''yaml_content'') = Inr (PDict manifest)"
    and "map_of manifest ''kind'' = Some (PStr kind)"
    and "lower kind \<notin> set [''pod'', ''deployment'', ''service'']"
  shows "fst (call_tool e ''kubectl_delete'' arguments) = []
       \<and> (kind \<noteq> [] \<and> map_of manifest ''metadata'' = Some (PDict metadata)
            \<and> map_of metadata ''name'' = Some resource_name \<and> truthy resource_name \<longrightarrow>
          call_tool e ''kubectl_delete'' arguments =
            ([], Inr [TextContent
               (''Generic deletion not fully implemented for '' @ lower kind)]))
       \<and> (map_of manifest ''metadata'' = None \<longrightarrow>
          call_tool e ''kubectl_delete'' arguments =
            ([], Inr [TextContent ''Error: Resource name not found in YAML'']))"
proof -
  let ?ns = "arg_get arguments ''namespace''"
  obtain calls r where r: "delete_manifest e (PDict manifest) ?ns = (calls, r)"
    by (cases "delete_manifest e (PDict manifest) ?ns")
  have "calls = []"
    using delete_other_kind_no_call [OF assms(3,4), of e ?ns] r by simp
  then have 1: "fst (call_tool e ''kubectl_delete'' arguments) = []"
    using delete_loaded [OF assms(1,2) r] by simp
  have 2: "call_tool e ''kubectl_delete'' arguments =
            ([], Inr [TextContent
               (''Generic deletion not fully implemented for '' @ lower kind)])"
    if "kind \<noteq> []" "map_of manifest ''metadata'' = Some (PDict metadata)"
      "map_of metadata ''name'' = Some resource_name" "truthy resource_name"
  proof -
    have "delete_manifest e (PDict manifest) ?ns =
        ([], Inr (''Generic deletion not fully implemented for '' @ lower kind))"
      using that(1,4) assms(4)
      by (simp add: delete_manifest_kind [OF assms(3)] delete_manifest_named [OF that(2,3)]
            lower_Nil_iff Let_def)
    from delete_loaded [OF assms(1,2) this] show ?thesis by simp
  qed
  have 3: "call_tool e ''kubectl_delete'' arguments =
            ([], Inr [TextContent ''Error: Resource name not found in YAML''])"
    if "map_of manifest ''metadata'' = None"
  proof -
    have "delete_manifest e (PDict manifest) ?ns =
        ([], Inr ''Error: Resource name not found in YAML'')"
      by (simp add: delete_manifest_kind [OF assms(3)] delete_manifest_no_metadata [OF that])
    from delete_loaded [OF assms(1,2) this] show ?thesis by simp
  qed
  from 1 2 3 show ?thesis by blast
qed

text \<open>
  The claim as stated fails: a Node manifest that carries no name is answered with the text
  about the missing name, not with the generic-deletion text.
\<close>

theorem delete_unsupported_kind_counterexample:
  "call_tool (parsing manifests) ''kubectl_delete'' [''yaml_content'' \<mapsto> PStr ''{kind: Node}''] =
     ([], Inr [TextContent ''Error: Resource name not found in YAML''])"
  by (simp add: call_tool_ops kubectl_delete_def delete_result_def safe_load_def Let_def
        arg_get_def parsing_manifests delete_manifest_def py_get_def)

theorem delete_unsupported_kind_witness:
  "call_tool (parsing manifests) ''kubectl_delete''
     [''yaml_content'' \<mapsto> PStr ''{kind: Node, metadata: {name: worker-1}}''] =
   ([], Inr [TextContent ''Generic deletion not fully implemented for node''])"
  using delete_unsupported_kind
    [of "[''yaml_content'' \<mapsto> PStr ''{kind: Node, metadata: {name: worker-1}}'']"
        "parsing manifests"
        "[(''kind'', PStr ''Node''), (''metadata'', PDict [(''name'', PStr ''worker-1'')])]"
        "''Node''" "[(''name'', PStr ''worker-1'')]" "PStr ''worker-1''"]
  by (simp add: arg_get_def safe_load_def parsing_manifests lower_examples)

lemma delete_web_manifest:
  "delete_manifest (parsing manifests) web_manifest PNone =
     ([Delete_namespaced_pod (PStr ''web'') (PStr ''default'')],
      Inr ''Successfully deleted pod/web from namespace default'')"
  by (simp add: web_manifest_def delete_manifest_def py_get_def py_lower_def lower_examples
        py_str_def parsing_deletes)

text \<open>
  C2, as amended. Delete reads \<open>yaml_content\<close> (truthy) with the single-document loader
  \<^verbatim>\<open>yaml.safe_load\<close>. When that loader raises a ComposerError on a stream of more than one
  document, as PyYAML's does, a delete of such a stream uses none of its documents: the
  result is the text \<^verbatim>\<open>Error deleting resource: \<close> followed by the loader's message, and no
  control-plane call is made. Whatever the loader raises is answered with that text and no
  call; kind, name and namespace are taken from the document the loader returns, and the
  calls and the text are those of the statements that follow the load.
\<close>

theorem delete_multiple_documents:
  assumes "truthy (arg_get arguments ''yaml_content'')"
  shows "(single_document_loader e
            \<and> yaml_documents e (arg_get arguments ''yaml_content'') = Inr (d # d' # ds) \<longrightarrow>
          (\<exists>message.
             safe_load e (arg_get arguments ''yaml_content'') = Inl (Raised ''ComposerError'' message)
             \<and> call_tool e ''kubectl_delete'' arguments =
                 ([], Inr [TextContent (''Error deleting resource: '' @ message)])))
       \<and> (safe_load e (arg_get arguments ''yaml_content'') = Inl err \<longrightarrow>
            call_tool e ''kubectl_delete'' arguments =
              ([], Inr [TextContent (''Error deleting resource: '' @ exn_str err)]))
       \<and> (safe_load e (arg_get arguments ''yaml_content'') = Inr manifest
            \<and> delete_manifest e manifest (arg_get arguments ''namespace'') = (calls, r) \<longrightarrow>
            call_tool e ''kubectl_delete'' arguments =
              (calls, Inr [TextContent
                 (case r of Inl err \<Rightarrow> ''Error deleting resource: '' @ exn_str err
                          | Inr text \<Rightarrow> text)]))"
proof -
  have 1: "\<exists>message.
             safe_load e (arg_get arguments ''yaml_content'') = Inl (Raised ''ComposerError'' message)
             \<and> call_tool e ''kubectl_delete'' arguments =
                 ([], Inr [TextContent (''Error deleting resource: '' @ message)])"
    if "single_document_loader e"
      "yaml_documents e (arg_get arguments ''yaml_content'') = Inr (d # d' # ds)"
  proof -
    from that obtain message where
      m: "safe_load e (arg_get arguments ''yaml_content'') = Inl (Raised ''ComposerError'' message)"
      unfolding single_document_loader_def safe_load_def by blast
    from delete_raises [OF assms m] m show ?thesis by auto
  qed
  from 1 delete_raises [OF assms] delete_loaded [OF assms] show ?thesis by blast
qed

text \<open>
  The claim as stated fails: with a usable pod manifest first and a second document after it,
  the delete fails and deletes nothing; the same first document alone is deleted.
\<close>

theorem delete_multiple_documents_counterexample:
  "yaml_documents (parsing manifests) two_documents = Inr [web_manifest, db_manifest]
   \<and> call_tool (parsing manifests) ''kubectl_delete'' [''yaml_content'' \<mapsto> two_documents] =
     ([], Inr [TextContent (''Error deleting resource: '' @ exn_str two_documents_error)])
   \<and> call_tool (parsing manifests) ''kubectl_delete''
       [''yaml_content'' \<mapsto> PStr ''{kind: Pod, metadata: {name: web}}''] =
     ([Delete_namespaced_pod (PStr ''web'') (PStr ''default'')],
      Inr [TextContent ''Successfully deleted pod/web from namespace default''])"
proof -
  have t: "truthy two_documents"
    by (simp add: two_documents_def)
  have "call_tool (parsing manifests) ''kubectl_delete'' [''yaml_content'' \<mapsto> two_documents] =
     ([], Inr [TextContent (''Error deleting resource: '' @ exn_str two_documents_error)])"
    using t
    by (simp add: call_tool_ops kubectl_delete_def delete_result_def safe_load_def Let_def
          arg_get_def parsing_manifests)
  moreover have "call_tool (parsing manifests) ''kubectl_delete''
       [''yaml_content'' \<mapsto> PStr ''{kind: Pod, metadata: {name: web}}''] =
     ([Delete_namespaced_pod (PStr ''web'') (PStr ''default'')],
      Inr [TextContent ''Successfully deleted pod/web from namespace default''])"
    by (simp add: call_tool_ops kubectl_delete_def delete_result_def safe_load_def Let_def
          arg_get_def parsing_manifests delete_web_manifest)
  ultimately show ?thesis
    using parsing_manifests(1) by blast
qed

theorem delete_multiple_documents_witness:
  "(\<exists>message.
      safe_load (parsing manifests) two_documents = Inl (Raised ''ComposerError'' message)
      \<and> call_tool (parsing manifests) ''kubectl_delete'' [''yaml_content'' \<mapsto> two_documents] =
          ([], Inr [TextContent (''Error deleting resource: '' @ message)]))
   \<and> call_tool (parsing manifests) ''kubectl_delete''
       [''yaml_content'' \<mapsto> PStr ''{kind: Pod, metadata: {name: web}}''] =
     ([Delete_namespaced_pod (PStr ''web'') (PStr ''default'')],
      Inr [TextContent ''Successfully deleted pod/web from namespace default''])"
proof -
  have t: "truthy (arg_get [''yaml_content'' \<mapsto> two_documents] ''yaml_content'')"
    "arg_get [''yaml_content'' \<mapsto> two_documents] ''yaml_content'' = two_documents"
    by (simp_all add: arg_get_def two_documents_def)
  have u: "truthy (arg_get [''yaml_content'' \<mapsto> PStr ''{kind: Pod, metadata: {name: web}}'']
              ''yaml_content'')"
    "arg_get [''yaml_content'' \<mapsto> PStr ''{kind: Pod, metadata: {name: web}}''] ''yaml_content''
       = PStr ''{kind: Pod, metadata: {name: web}}''"
    "arg_get [''yaml_content'' \<mapsto> PStr ''{kind: Pod, metadata: {name: web}}''] ''namespace''
       = PNone"
    by (simp_all add: arg_get_def)
  have a: "\<exists>message.
      safe_load (parsing manifests) two_documents = Inl (Raised ''ComposerError'' message)
      \<and> call_tool (parsing manifests) ''kubectl_delete'' [''yaml_content'' \<mapsto> two_documents] =
          ([], Inr [TextContent (''Error deleting resource: '' @ message)])"
    using delete_multiple_documents
      [OF t(1), of "parsing manifests" web_manifest db_manifest "[]"]
      parsing_manifests_loader parsing_manifests(1)
    by (simp add: t(2))
  have b: "call_tool (parsing manifests) ''kubectl_delete''
       [''yaml_content'' \<mapsto> PStr ''{kind: Pod, metadata: {name: web}}''] =
     ([Delete_namespaced_pod (PStr ''web'') (PStr ''default'')],
      Inr [TextContent ''Successfully deleted pod/web from namespace default''])"
    using delete_multiple_documents
      [OF u(1), of "parsing manifests" _ _ _ _ web_manifest
         "[Delete_namespaced_pod (PStr ''web'') (PStr ''default'')]"
         "Inr ''Successfully deleted pod/web from namespace default''"]
    by (simp add: u safe_load_def parsing_manifests delete_web_manifest)
  from a b show ?thesis by blast
qed

section \<open>Unsupported resource types\<close>

text \<open>
  C4, as amended. For a get, or a describe with a truthy name, whose \<open>resource_type\<close> is a
  non-empty string matching no alias the operation supports, the returned text is exactly
  \<^verbatim>\<open>Unsupported resource type: \<close> followed by the token in lower case, and no control-plane
  call is made. The token is lower-cased by \<^verbatim>\<open>str.lower\<close> before it is matched, and the
  lower-cased token is what the message shows; a token already in lower case is reproduced as
  given. Get supports the aliases of five kinds; describe has no namespace branch.
\<close>

theorem unsupported_resource_type:
  "arguments ''resource_type'' = Some (PStr token) \<Longrightarrow> token \<noteq> [] \<Longrightarrow>
   (lower token \<notin> set [''pod'', ''pods'', ''deployment'', ''deployments'', ''service'',
        ''services'', ''svc'', ''node'', ''nodes'', ''namespace'', ''namespaces'', ''ns''] \<longrightarrow>
      call_tool e ''kubectl_get'' arguments =
        ([], Inr [TextContent (''Unsupported resource type: '' @ lower token)]))
   \<and> (truthy (arg_get arguments ''name'') \<and>
       lower token \<notin> set [''pod'', ''pods'', ''deployment'', ''deployments'', ''service'',
        ''services'', ''svc'', ''node'', ''nodes''] \<longrightarrow>
      call_tool e ''kubectl_describe'' arguments =
        ([], Inr [TextContent (''Unsupported resource type: '' @ lower token)]))"
  by (simp add: call_tool_def kubectl_get_def kubectl_describe_def arg_get_def Let_def
        py_lower_def get_result_def describe_result_def lower_Nil_iff)

text \<open>
  The claim as stated fails: the token \<^verbatim>\<open>ConfigMap\<close> comes back as \<^verbatim>\<open>configmap\<close>.
\<close>

theorem unsupported_resource_type_counterexample:
  "call_tool offline ''kubectl_get'' [''resource_type'' \<mapsto> PStr ''ConfigMap''] =
     ([], Inr [TextContent ''Unsupported resource type: configmap''])
   \<and> call_tool offline ''kubectl_get'' [''resource_type'' \<mapsto> PStr ''ConfigMap''] \<noteq>
     ([], Inr [TextContent ''Unsupported resource type: ConfigMap''])"
proof -
  have "call_tool offline ''kubectl_get'' [''resource_type'' \<mapsto> PStr ''ConfigMap''] =
     ([], Inr [TextContent ''Unsupported resource type: configmap''])"
    by (simp add: call_tool_def kubectl_get_def arg_get_def arg_get_default_def Let_def
        py_lower_def get_result_def lower_examples)
  then show ?thesis by simp
qed

lemma lower_cafe: "lower (''CAF'' @ [CHR 0xC9]) = ''caf'' @ [CHR 0xE9]"
  by (simp add: lower_def lower_char_def upper_chars_def lower_chars_def)

theorem unsupported_resource_type_witness:
  "call_tool offline ''kubectl_describe''
     [''resource_type'' \<mapsto> PStr ''ConfigMap'', ''name'' \<mapsto> PStr ''settings''] =
     ([], Inr [TextContent ''Unsupported resource type: configmap''])
   \<and> call_tool offline ''kubectl_get''
     [''resource_type'' \<mapsto> PStr ''ConfigMap'', ''name'' \<mapsto> PStr ''settings''] =
     ([], Inr [TextContent ''Unsupported resource type: configmap''])
   \<and> call_tool offline ''kubectl_get'' [''resource_type'' \<mapsto> PStr (''CAF'' @ [CHR 0xC9])] =
     ([], Inr [TextContent (''Unsupported resource type: caf'' @ [CHR 0xE9])])"
  using unsupported_resource_type
    [of "[''resource_type'' \<mapsto> PStr ''ConfigMap'', ''name'' \<mapsto> PStr ''settings'']"
        "''ConfigMap''" offline]
    unsupported_resource_type
    [of "[''resource_type'' \<mapsto> PStr (''CAF'' @ [CHR 0xC9])]" "''CAF'' @ [CHR 0xC9]" offline]
  by (simp add: arg_get_def lower_examples lower_cafe [simplified])

section \<open>Errors at the boundary\<close>

lemma kubectl_apply_text:
  "\<exists>calls text. kubectl_apply e arguments = (calls, Inr [TextContent text])"
proof (cases "truthy (arg_get arguments ''yaml_content'')")
  case False
  then show ?thesis by (simp add: kubectl_apply_def Let_def)
next
  case True
  obtain calls r where
    "apply_result e (arg_get arguments ''yaml_content'') (arg_get arguments ''namespace'') = (calls, r)"
    by (cases "apply_result e (arg_get arguments ''yaml_content'') (arg_get arguments ''namespace'')")
  with True show ?thesis
    by (cases r) (simp_all add: kubectl_apply_def Let_def)
qed

lemma kubectl_delete_text:
  "\<exists>calls text. kubectl_delete e arguments = (calls, Inr [TextContent text])"
proof (cases "truthy (arg_get arguments ''yaml_content'')")
  case False
  then show ?thesis by (simp add: kubectl_delete_def Let_def)
next
  case True
  obtain calls r where
    "delete_result e (arg_get arguments ''yaml_content'') (arg_get arguments ''namespace'') = (calls, r)"
    by (cases "delete_result e (arg_get arguments ''yaml_content'') (arg_get arguments ''namespace'')")
  with True show ?thesis
    by (cases r) (simp_all add: kubectl_delete_def Let_def)
qed

lemma kubectl_get_text:
  assumes "\<forall>v. arguments ''resource_type'' = Some v \<longrightarrow> truthy v \<longrightarrow> (\<exists>s. v = PStr s)"
  shows "\<exists>calls text. kubectl_get e arguments = (calls, Inr [TextContent text])"
proof (cases "truthy (arg_get arguments ''resource_type'')")
  case False
  then show ?thesis by (simp add: kubectl_get_def Let_def)
next
  case True
  then obtain s where s: "arg_get arguments ''resource_type'' = PStr s"
    using assms by (auto simp: arg_get_def split: option.splits)
  obtain calls r where
    "get_result e (lower s) (arg_get_default arguments ''namespace'' (PStr ''default''))
       (arg_get arguments ''name'') = (calls, r)"
    by (cases "get_result e (lower s) (arg_get_default arguments ''namespace'' (PStr ''default''))
       (arg_get arguments ''name'')")
  with True s show ?thesis
    by (cases r) (auto simp: kubectl_get_def Let_def py_lower_def split: option.splits)
qed

lemma kubectl_describe_text:
  assumes "\<forall>v. arguments ''resource_type'' = Some v \<longrightarrow> truthy v \<longrightarrow>
             truthy (arg_get arguments ''name'') \<longrightarrow> (\<exists>s. v = PStr s)"
  shows "\<exists>calls text. kubectl_describe e arguments = (calls, Inr [TextContent text])"
proof (cases "truthy (arg_get arguments ''resource_type'') \<and> truthy (arg_get arguments ''name'')")
  case False
  then show ?thesis by (auto simp: kubectl_describe_def Let_def)
next
  case True
  then obtain s where s: "arg_get arguments ''resource_type'' = PStr s"
    using assms by (auto simp: arg_get_def split: option.splits)
  obtain calls r where
    "describe_result e (lower s) (arg_get_default arguments ''namespace'' (PStr ''default''))
       (arg_get arguments ''name'') = (calls, r)"
    by (cases "describe_result e (lower s) (arg_get_default arguments ''namespace'' (PStr ''default''))
       (arg_get arguments ''name'')")
  with True s show ?thesis
    by (cases r) (auto simp: kubectl_describe_def Let_def py_lower_def split: option.splits)
qed

text \<open>
  C5, as amended. Apply and delete return one text result for every argument bag and raise
  nothing. Get does so when \<open>resource_type\<close> is absent, falsy or a string, and describe when
  \<open>resource_type\<close> is absent, falsy or a string or \<open>name\<close> is falsy. An exception raised inside
  the \<^verbatim>\<open>try\<close> block of an operation, by the parser, the client or a projection, is answered
  with the text that names the operation and the cause: \<^verbatim>\<open>Error applying manifest: \<close>,
  \<^verbatim>\<open>Error deleting resource: \<close>, \<^verbatim>\<open>Error getting resource: \<close> or
  \<^verbatim>\<open>Error describing resource: \<close>, followed by \<^verbatim>\<open>str(e)\<close>, together with the calls made up
  to the exception.
\<close>

theorem errors_become_text:
  "(\<exists>calls text. call_tool e ''kubectl_apply'' arguments = (calls, Inr [TextContent text]))
   \<and> (\<exists>calls text. call_tool e ''kubectl_delete'' arguments = (calls, Inr [TextContent text]))
   \<and> ((\<forall>v. arguments ''resource_type'' = Some v \<longrightarrow> truthy v \<longrightarrow> (\<exists>s. v = PStr s)) \<longrightarrow>
       (\<exists>calls text. call_tool e ''kubectl_get'' arguments = (calls, Inr [TextContent text])))
   \<and> ((\<forall>v. arguments ''resource_type'' = Some v \<longrightarrow> truthy v \<longrightarrow>
            truthy (arg_get arguments ''name'') \<longrightarrow> (\<exists>s. v = PStr s)) \<longrightarrow>
       (\<exists>calls text. call_tool e ''kubectl_describe'' arguments = (calls, Inr [TextContent text])))
   \<and> (truthy (arg_get arguments ''yaml_content'')
       \<and> apply_result e (arg_get arguments ''yaml_content'') (arg_get arguments ''namespace'')
           = (calls, Inl err) \<longrightarrow>
       call_tool e ''kubectl_apply'' arguments =
         (calls, Inr [TextContent (''Error applying manifest: '' @ exn_str err)]))
   \<and> (truthy (arg_get arguments ''yaml_content'')
       \<and> delete_result e (arg_get arguments ''yaml_content'') (arg_get arguments ''namespace'')
           = (calls, Inl err) \<longrightarrow>
       call_tool e ''kubectl_delete'' arguments =
         (calls, Inr [TextContent (''Error deleting resource: '' @ exn_str err)]))
   \<and> (arguments ''resource_type'' = Some (PStr token) \<and> token \<noteq> []
       \<and> get_result e (lower token) (arg_get_default arguments ''namespace'' (PStr ''default''))
            (arg_get arguments ''name'') = (calls, Inl err) \<longrightarrow>
       call_tool e ''kubectl_get'' arguments =
         (calls, Inr [TextContent (''Error getting resource: '' @ exn_str err)]))
   \<and> (arguments ''resource_type'' = Some (PStr token) \<and> token \<noteq> []
       \<and> truthy (arg_get arguments ''name'')
       \<and> describe_result e (lower token)
            (arg_get_default arguments ''namespace'' (PStr ''default''))
            (arg_get arguments ''name'') = (calls, Inl err) \<longrightarrow>
       call_tool e ''kubectl_describe'' arguments =
         (calls, Inr [TextContent (''Error describing resource: '' @ exn_str err)]))"
proof (intro conjI impI)
  show "\<exists>calls text. call_tool e ''kubectl_apply'' arguments = (calls, Inr [TextContent text])"
    using kubectl_apply_text by (simp add: call_tool_ops)
  show "\<exists>calls text. call_tool e ''kubectl_delete'' arguments = (calls, Inr [TextContent text])"
    using kubectl_delete_text by (simp add: call_tool_ops)
  show "\<exists>calls text. call_tool e ''kubectl_get'' arguments = (calls, Inr [TextContent text])"
    if "\<forall>v. arguments ''resource_type'' = Some v \<longrightarrow> truthy v \<longrightarrow> (\<exists>s. v = PStr s)"
    using kubectl_get_text [of arguments e] that by (simp add: call_tool_ops)
  show "\<exists>calls text. call_tool e ''kubectl_describe'' arguments = (calls, Inr [TextContent text])"
    if "\<forall>v. arguments ''resource_type'' = Some v \<longrightarrow> truthy v \<longrightarrow>
            truthy (arg_get arguments ''name'') \<longrightarrow> (\<exists>s. v = PStr s)"
    using kubectl_describe_text [of arguments e] that by (simp add: call_tool_ops)
  show "call_tool e ''kubectl_apply'' arguments =
         (calls, Inr [TextContent (''Error applying manifest: '' @ exn_str err)])"
    if "truthy (arg_get arguments ''yaml_content'')
       \<and> apply_result e (arg_get arguments ''yaml_content'') (arg_get arguments ''namespace'')
           = (calls, Inl err)"
    using that by (simp add: call_tool_ops kubectl_apply_def Let_def)
  show "call_tool e ''kubectl_delete'' arguments =
         (calls, Inr [TextContent (''Error deleting resource: '' @ exn_str err)])"
    if "truthy (arg_get arguments ''yaml_content'')
       \<and> delete_result e (arg_get arguments ''yaml_content'') (arg_get arguments ''namespace'')
           = (calls, Inl err)"
    using that by (simp add: call_tool_ops kubectl_delete_def Let_def)
  show "call_tool e ''kubectl_get'' arguments =
         (calls, Inr [TextContent (''Error getting resource: '' @ exn_str err)])"
    if "arguments ''resource_type'' = Some (PStr token) \<and> token \<noteq> []
       \<and> get_result e (lower token) (arg_get_default arguments ''namespace'' (PStr ''default''))
            (arg_get arguments ''name'') = (calls, Inl err)"
    using that by (simp add: call_tool_ops kubectl_get_def arg_get_def Let_def py_lower_def)
  show "call_tool e ''kubectl_describe'' arguments =
         (calls, Inr [TextContent (''Error describing resource: '' @ exn_str err)])"
    if "arguments ''resource_type'' = Some (PStr token) \<and> token \<noteq> []
       \<and> truthy (arg_get arguments ''name'')
       \<and> describe_result e (lower token)
            (arg_get_default arguments ''namespace'' (PStr ''default''))
            (arg_get arguments ''name'') = (calls, Inl err)"
    using that by (simp add: call_tool_ops kubectl_describe_def arg_get_def Let_def py_lower_def)
qed

text \<open>
  The claim as stated fails: \<^verbatim>\<open>resource_type.lower()\<close> stands before the \<^verbatim>\<open>try\<close> in get and
  in describe, so a truthy \<open>resource_type\<close> that is not a string leaves \<^verbatim>\<open>call_tool\<close> as an
  AttributeError.
\<close>

theorem errors_become_text_counterexample:
  "call_tool offline ''kubectl_get'' [''resource_type'' \<mapsto> PInt 5] =
     ([], Inl (AttributeError ''int'' ''lower''))
   \<and> call_tool offline ''kubectl_describe''
        [''resource_type'' \<mapsto> PInt 5, ''name'' \<mapsto> PStr ''web''] =
     ([], Inl (AttributeError ''int'' ''lower''))"
  by (simp add: call_tool_def kubectl_get_def kubectl_describe_def arg_get_def Let_def py_lower_def)

theorem errors_become_text_witness:
  "call_tool offline ''kubectl_get'' [''resource_type'' \<mapsto> PStr ''pods''] =
     ([List_namespaced_pod (PStr ''default'')],
      Inr [TextContent (''Error getting resource: '' @ exn_str unavailable)])
   \<and> call_tool offline ''kubectl_describe''
        [''resource_type'' \<mapsto> PStr ''Pod'', ''name'' \<mapsto> PStr ''web''] =
     ([Read_namespaced_pod (PStr ''web'') (PStr ''default'')],
      Inr [TextContent (''Error describing resource: '' @ exn_str unavailable)])
   \<and> call_tool offline ''kubectl_apply'' [''yaml_content'' \<mapsto> PStr ''# nothing''] =
     ([Create_from_yaml [] PNone],
      Inr [TextContent (''Error applying manifest: '' @ exn_str unavailable)])
   \<and> call_tool (parsing manifests) ''kubectl_delete'' [''yaml_content'' \<mapsto> two_documents] =
     ([], Inr [TextContent (''Error deleting resource: '' @ exn_str two_documents_error)])
   \<and> (\<exists>calls text. call_tool offline ''kubectl_describe'' [''resource_type'' \<mapsto> PInt 5] =
        (calls, Inr [TextContent text]))"
proof -
  have g: "get_result offline (lower ''pods'') (PStr ''default'') PNone =
      ([List_namespaced_pod (PStr ''default'')], Inl unavailable)"
    by (simp add: lower_examples get_result_def offline_def)
  have d: "describe_result offline (lower ''Pod'') (PStr ''default'') (PStr ''web'') =
      ([Read_namespaced_pod (PStr ''web'') (PStr ''default'')], Inl unavailable)"
    by (simp add: lower_examples describe_result_def offline_def)
  have a: "apply_result offline (PStr ''# nothing'') PNone =
      ([Create_from_yaml [] PNone], Inl unavailable)"
    by (simp add: apply_result_def safe_load_all_def offline_def)
  have x: "delete_result (parsing manifests) two_documents PNone = ([], Inl two_documents_error)"
    by (simp add: delete_result_def safe_load_def parsing_manifests)
  have t: "truthy two_documents"
    by (simp add: two_documents_def)
  show ?thesis
    using errors_become_text
        [of offline "[''resource_type'' \<mapsto> PStr ''pods'']"
            "[List_namespaced_pod (PStr ''default'')]" unavailable "''pods''"]
      errors_become_text
        [of offline "[''resource_type'' \<mapsto> PStr ''Pod'', ''name'' \<mapsto> PStr ''web'']"
            "[Read_namespaced_pod (PStr ''web'') (PStr ''default'')]" unavailable "''Pod''"]
      errors_become_text
        [of offline "[''yaml_content'' \<mapsto> PStr ''# nothing'']"
            "[Create_from_yaml [] PNone]" unavailable]
      errors_become_text
        [of "parsing manifests" "[''yaml_content'' \<mapsto> two_documents]" "[]" two_documents_error]
      errors_become_text [of offline "[''resource_type'' \<mapsto> PInt 5]"]
      g d a x t
    by (simp add: arg_get_def arg_get_default_def)
qed

section \<open>The payload of get\<close>

lemma json_dumps_list_hd: "hd (json_dumps (PList xs)) = CHR ''[''"
  by (simp add: json_dumps_def)

lemma json_dumps_dict_hd: "hd (json_dumps (PDict kvs)) = CHR ''{''"
  by (simp add: json_dumps_def)

lemma map_exn_all:
  assumes "map_exn f xs = Inr ys" and "\<And>x y. f x = Inr y \<Longrightarrow> P y"
  shows "\<forall>y \<in> set ys. P y"
  using assms(1)
proof (induction xs arbitrary: ys)
  case Nil
  then show ?case by simp
next
  case (Cons x xs)
  then show ?case using assms(2) by (auto simp: and_then_Inr_iff)
qed

lemma pod_summary_keys:
  "pod_summary namespace pod = Inr s \<Longrightarrow>
     \<exists>entries. s = PDict entries
       \<and> map fst entries = [''name'', ''namespace'', ''status'', ''ready'', ''restarts'', ''node'']"
  by (auto simp: pod_summary_def and_then_Inr_iff)

lemma deployment_summary_keys:
  "deployment_summary namespace dep = Inr s \<Longrightarrow>
     \<exists>entries. s = PDict entries
       \<and> map fst entries = [''name'', ''namespace'', ''ready'', ''up_to_date'', ''available'']"
  by (auto simp: deployment_summary_def and_then_Inr_iff)

lemma service_summary_keys:
  "service_summary namespace svc = Inr s \<Longrightarrow>
     \<exists>entries. s = PDict entries
       \<and> map fst entries =
           [''name'', ''namespace'', ''type'', ''cluster_ip'', ''external_ip'', ''ports'']"
  by (auto simp: service_summary_def and_then_Inr_iff)

lemma node_summary_keys:
  "node_summary node = Inr s \<Longrightarrow>
     \<exists>entries. s = PDict entries
       \<and> map fst entries = [''name'', ''status'', ''roles'', ''version'', ''internal_ip'']"
  by (auto simp: node_summary_def and_then_Inr_iff)

lemma namespace_summary_keys:
  "namespace_summary ns = Inr s \<Longrightarrow>
     \<exists>entries. s = PDict entries \<and> map fst entries = [''name'', ''status'', ''age'']"
  by (auto simp: namespace_summary_def and_then_Inr_iff)

lemma fetched_shape:
  assumes "(if t then (calls1, and_then one (\<lambda>x. and_then (f x) (\<lambda>s. Inr (Some [s]))))
            else (calls2, and_then many (\<lambda>xs. and_then (map_exn f xs) (\<lambda>ss. Inr (Some ss)))))
           = (calls, Inr (Some result))"
    and "\<And>x y. f x = Inr y \<Longrightarrow> P y"
  shows "calls = (if t then calls1 else calls2)
       \<and> (\<exists>xs. (if t then (\<exists>x. one = Inr x \<and> xs = [x]) else many = Inr xs)
           \<and> map_exn f xs = Inr result \<and> length result = length xs)
       \<and> (\<forall>y \<in> set result. P y)"
proof (cases t)
  case True
  with assms(1) obtain x s where *: "one = Inr x" "f x = Inr s" "result = [s]"
    by (auto simp: and_then_Inr_iff)
  moreover from True assms(1) have "calls = calls1" by simp
  moreover from * assms(2) have "\<forall>y \<in> set result. P y" by simp
  ultimately show ?thesis using True by (intro conjI exI [of _ "[x]"]) simp_all
next
  case False
  with assms(1) obtain xs where *: "many = Inr xs" "map_exn f xs = Inr result"
    by (auto simp: and_then_Inr_iff)
  moreover from False assms(1) have "calls = calls2" by simp
  moreover from *(2) assms(2) have "\<forall>y \<in> set result. P y" by (rule map_exn_all)
  ultimately show ?thesis
    using False by (intro conjI exI [of _ xs]) (simp_all add: map_exn_length)
qed

lemma get_result_kind:
  assumes "get_result e resource_type namespace name = (calls, Inr (Some result))"
  shows "resource_type \<in> set [''pod'', ''pods'']
       \<or> resource_type \<in> set [''deployment'', ''deployments'']
       \<or> resource_type \<in> set [''service'', ''services'', ''svc'']
       \<or> resource_type \<in> set [''node'', ''nodes'']
       \<or> resource_type \<in> set [''namespace'', ''namespaces'', ''ns'']"
proof -
  define p where "p = (resource_type \<in> set [''pod'', ''pods''])"
  define d where "d = (resource_type \<in> set [''deployment'', ''deployments''])"
  define s where "s = (resource_type \<in> set [''service'', ''services'', ''svc''])"
  define n where "n = (resource_type \<in> set [''node'', ''nodes''])"
  define m where "m = (resource_type \<in> set [''namespace'', ''namespaces'', ''ns''])"
  have "get_result e resource_type namespace name = ([], Inr None)"
    if "\<not> p" "\<not> d" "\<not> s" "\<not> n" "\<not> m"
    using that unfolding get_result_def p_def d_def s_def n_def m_def
    by (simp only: if_False)
  with assms show ?thesis
    unfolding p_def d_def s_def n_def m_def by fastforce
qed

lemma get_result_empty_token: "get_result e [] namespace name = ([], Inr None)"
  by (simp add: get_result_def)

lemma get_result_fetched:
  assumes "get_result e resource_type namespace name = (calls, Inr (Some result))"
  shows "(resource_type \<in> set [''pod'', ''pods''] \<longrightarrow>
            calls = (if truthy name
                     then [Read_namespaced_pod name namespace]
                     else [List_namespaced_pod namespace])
            \<and> (\<exists>pods.
                  (if truthy name
                   then (\<exists>pod. read_namespaced_pod e name namespace = Inr pod
                           \<and> pods = [pod])
                   else list_namespaced_pod e namespace = Inr pods)
                \<and> map_exn (pod_summary namespace) pods = Inr result
                \<and> length result = length pods)
            \<and> (\<forall>summary \<in> set result. \<exists>entries. summary = PDict entries
                  \<and> map fst entries =
                      [''name'', ''namespace'', ''status'', ''ready'', ''restarts'', ''node'']))
       \<and> (resource_type \<in> set [''deployment'', ''deployments''] \<longrightarrow>
            calls = (if truthy name
                     then [Read_namespaced_deployment name namespace]
                     else [List_namespaced_deployment namespace])
            \<and> (\<exists>deployments.
                  (if truthy name
                   then (\<exists>dep. read_namespaced_deployment e name namespace = Inr dep
                           \<and> deployments = [dep])
                   else list_namespaced_deployment e namespace = Inr deployments)
                \<and> map_exn (deployment_summary namespace) deployments = Inr result
                \<and> length result = length deployments)
            \<and> (\<forall>summary \<in> set result. \<exists>entries. summary = PDict entries
                  \<and> map fst entries =
                      [''name'', ''namespace'', ''ready'', ''up_to_date'', ''available'']))
       \<and> (resource_type \<in> set [''service'', ''services'', ''svc''] \<longrightarrow>
            calls = (if truthy name
                     then [Read_namespaced_service name namespace]
                     else [List_namespaced_service namespace])
            \<and> (\<exists>services.
                  (if truthy name
                   then (\<exists>svc. read_namespaced_service e name namespace = Inr svc
                           \<and> services = [svc])
                   else list_namespaced_service e namespace = Inr services)
                \<and> map_exn (service_summary namespace) services = Inr result
                \<and> length result = length services)
            \<and> (\<forall>summary \<in> set result. \<exists>entries. summary = PDict entries
                  \<and> map fst entries =
                      [''name'', ''namespace'', ''type'', ''cluster_ip'', ''external_ip'', ''ports'']))
       \<and> (resource_type \<in> set [''node'', ''nodes''] \<longrightarrow>
            calls = (if truthy name
                     then [Read_node name]
                     else [List_node])
            \<and> (\<exists>nodes.
                  (if truthy name
                   then (\<exists>node. read_node e name = Inr node
                           \<and> nodes = [node])
                   else list_node e = Inr nodes)
                \<and> map_exn (node_summary) nodes = Inr result
                \<and> length result = length nodes)
            \<and> (\<forall>summary \<in> set result. \<exists>entries. summary = PDict entries
                  \<and> map fst entries =
                      [''name'', ''status'', ''roles'', ''version'', ''internal_ip'']))
       \<and> (resource_type \<in> set [''namespace'', ''namespaces'', ''ns''] \<longrightarrow>
            calls = (if truthy name
                     then [Read_namespace name]
                     else [List_namespace])
            \<and> (\<exists>namespaces.
                  (if truthy name
                   then (\<exists>ns. read_namespace e name = Inr ns
                           \<and> namespaces = [ns])
                   else list_namespace e = Inr namespaces)
                \<and> map_exn (namespace_summary) namespaces = Inr result
                \<and> length result = length namespaces)
            \<and> (\<forall>summary \<in> set result. \<exists>entries. summary = PDict entries
                  \<and> map fst entries =
                      [''name'', ''status'', ''age'']))"
proof -
  define p where "p = (resource_type \<in> set [''pod'', ''pods''])"
  define d where "d = (resource_type \<in> set [''deployment'', ''deployments''])"
  define s where "s = (resource_type \<in> set [''service'', ''services'', ''svc''])"
  define n where "n = (resource_type \<in> set [''node'', ''nodes''])"
  define m where "m = (resource_type \<in> set [''namespace'', ''namespaces'', ''ns''])"
  have excl: "\<not> (p \<and> d)" "\<not> (p \<and> s)" "\<not> (p \<and> n)" "\<not> (p \<and> m)" "\<not> (d \<and> s)"
    "\<not> (d \<and> n)" "\<not> (d \<and> m)" "\<not> (s \<and> n)" "\<not> (s \<and> m)" "\<not> (n \<and> m)"
    unfolding p_def d_def s_def n_def m_def by auto
  have eq: "get_result e resource_type namespace name =
     (if p then
        (if truthy name then
           ([Read_namespaced_pod name namespace],
            and_then (read_namespaced_pod e name namespace) (\<lambda>pod.
            and_then (pod_summary namespace pod) (\<lambda>s. Inr (Some [s]))))
         else
           ([List_namespaced_pod namespace],
            and_then (list_namespaced_pod e namespace) (\<lambda>pods.
            and_then (map_exn (pod_summary namespace) pods) (\<lambda>ss. Inr (Some ss)))))
      else if d then
        (if truthy name then
           ([Read_namespaced_deployment name namespace],
            and_then (read_namespaced_deployment e name namespace) (\<lambda>dep.
            and_then (deployment_summary namespace dep) (\<lambda>s. Inr (Some [s]))))
         else
           ([List_namespaced_deployment namespace],
            and_then (list_namespaced_deployment e namespace) (\<lambda>deployments.
            and_then (map_exn (deployment_summary namespace) deployments) (\<lambda>ss. Inr (Some ss)))))
      else if s then
        (if truthy name then
           ([Read_namespaced_service name namespace],
            and_then (read_namespaced_service e name namespace) (\<lambda>svc.
            and_then (service_summary namespace svc) (\<lambda>s. Inr (Some [s]))))
         else
           ([List_namespaced_service namespace],
            and_then (list_namespaced_service e namespace) (\<lambda>services.
            and_then (map_exn (service_summary namespace) services) (\<lambda>ss. Inr (Some ss)))))
      else if n then
        (if truthy name then
           ([Read_node name],
            and_then (read_node e name) (\<lambda>node.
            and_then (node_summary node) (\<lambda>s. Inr (Some [s]))))
         else
           ([List_node],
            and_then (list_node e) (\<lambda>nodes.
            and_then (map_exn node_summary nodes) (\<lambda>ss. Inr (Some ss)))))
      else if m then
        (if truthy name then
           ([Read_namespace name],
            and_then (read_namespace e name) (\<lambda>ns.
            and_then (namespace_summary ns) (\<lambda>s. Inr (Some [s]))))
         else
           ([List_namespace],
            and_then (list_namespace e) (\<lambda>namespaces.
            and_then (map_exn namespace_summary namespaces) (\<lambda>ss. Inr (Some ss)))))
      else ([], Inr None))"
    unfolding get_result_def p_def d_def s_def n_def m_def ..
  have P: "calls = (if truthy name
                   then [Read_namespaced_pod name namespace]
                   else [List_namespaced_pod namespace])
          \<and> (\<exists>pods.
                (if truthy name
                 then (\<exists>pod. read_namespaced_pod e name namespace = Inr pod
                         \<and> pods = [pod])
                 else list_namespaced_pod e namespace = Inr pods)
              \<and> map_exn (pod_summary namespace) pods = Inr result
              \<and> length result = length pods)
          \<and> (\<forall>summary \<in> set result. \<exists>entries. summary = PDict entries
                \<and> map fst entries =
                    [''name'', ''namespace'', ''status'', ''ready'', ''restarts'', ''node''])" if p
  proof -
    from that excl have flags: "p = True" by blast+
    from flags assms show ?thesis
      unfolding eq
      by (simp only: if_True if_False) (rule fetched_shape, assumption, erule pod_summary_keys)
  qed
  have D: "calls = (if truthy name
                   then [Read_namespaced_deployment name namespace]
                   else [List_namespaced_deployment namespace])
          \<and> (\<exists>deployments.
                (if truthy name
                 then (\<exists>dep. read_namespaced_deployment e name namespace = Inr dep
                         \<and> deployments = [dep])
                 else list_namespaced_deployment e namespace = Inr deployments)
              \<and> map_exn (deployment_summary namespace) deployments = Inr result
              \<and> length result = length deployments)
          \<and> (\<forall>summary \<in> set result. \<exists>entries. summary = PDict entries
                \<and> map fst entries =
                    [''name'', ''namespace'', ''ready'', ''up_to_date'', ''available''])" if d
  proof -
    from that excl have flags: "p = False" "d = True" by blast+
    from flags assms show ?thesis
      unfolding eq
      by (simp only: if_True if_False) (rule fetched_shape, assumption, erule deployment_summary_keys)
  qed
  have S: "calls = (if truthy name
                   then [Read_namespaced_service name namespace]
                   else [List_namespaced_service namespace])
          \<and> (\<exists>services.
                (if truthy name
                 then (\<exists>svc. read_namespaced_service e name namespace = Inr svc
                         \<and> services = [svc])
                 else list_namespaced_service e namespace = Inr services)
              \<and> map_exn (service_summary namespace) services = Inr result
              \<and> length result = length services)
          \<and> (\<forall>summary \<in> set result. \<exists>entries. summary = PDict entries
                \<and> map fst entries =
                    [''name'', ''namespace'', ''type'', ''cluster_ip'', ''external_ip'', ''ports''])" if s
  proof -
    from that excl have flags: "p = False" "d = False" "s = True" by blast+
    from flags assms show ?thesis
      unfolding eq
      by (simp only: if_True if_False) (rule fetched_shape, assumption, erule service_summary_keys)
  qed
  have N: "calls = (if truthy name
                   then [Read_node name]
                   else [List_node])
          \<and> (\<exists>nodes.
                (if truthy name
                 then (\<exists>node. read_node e name = Inr node
                         \<and> nodes = [node])
                 else list_node e = Inr nodes)
              \<and> map_exn (node_summary) nodes = Inr result
              \<and> length result = length nodes)
          \<and> (\<forall>summary \<in> set result. \<exists>entries. summary = PDict entries
                \<and> map fst entries =
                    [''name'', ''status'', ''roles'', ''version'', ''internal_ip''])" if n
  proof -
    from that excl have flags: "p = False" "d = False" "s = False" "n = True" by blast+
    from flags assms show ?thesis
      unfolding eq
      by (simp only: if_True if_False) (rule fetched_shape, assumption, erule node_summary_keys)
  qed
  have M: "calls = (if truthy name
                   then [Read_namespace name]
                   else [List_namespace])
          \<and> (\<exists>namespaces.
                (if truthy name
                 then (\<exists>ns. read_namespace e name = Inr ns
                         \<and> namespaces = [ns])
                 else list_namespace e = Inr namespaces)
              \<and> map_exn (namespace_summary) namespaces = Inr result
              \<and> length result = length namespaces)
          \<and> (\<forall>summary \<in> set result. \<exists>entries. summary = PDict entries
                \<and> map fst entries =
                    [''name'', ''status'', ''age''])" if m
  proof -
    from that excl have flags: "p = False" "d = False" "s = False" "n = False" "m = True" by blast+
    from flags assms show ?thesis
      unfolding eq
      by (simp only: if_True if_False) (rule fetched_shape, assumption, erule namespace_summary_keys)
  qed
  from P D S N M show ?thesis
    unfolding p_def d_def s_def n_def m_def by blast
qed

lemma named_shape:
  "and_then m (\<lambda>x. and_then (f x) (\<lambda>s. Inr (Some [s]))) = Inr (Some result) \<Longrightarrow>
     length result = 1"
  by (auto simp: and_then_Inr_iff)

lemma get_result_named:
  assumes "truthy name"
    and "get_result e resource_type namespace name = (calls, Inr (Some result))"
  shows "length result = 1"
proof -
  define p where "p = (resource_type \<in> set [''pod'', ''pods''])"
  define d where "d = (resource_type \<in> set [''deployment'', ''deployments''])"
  define s where "s = (resource_type \<in> set [''service'', ''services'', ''svc''])"
  define n where "n = (resource_type \<in> set [''node'', ''nodes''])"
  define m where "m = (resource_type \<in> set [''namespace'', ''namespaces'', ''ns''])"
  have "get_result e resource_type namespace name =
     (if p then ([Read_namespaced_pod name namespace],
                 and_then (read_namespaced_pod e name namespace) (\<lambda>pod.
                 and_then (pod_summary namespace pod) (\<lambda>s. Inr (Some [s]))))
      else if d then ([Read_namespaced_deployment name namespace],
                 and_then (read_namespaced_deployment e name namespace) (\<lambda>dep.
                 and_then (deployment_summary namespace dep) (\<lambda>s. Inr (Some [s]))))
      else if s then ([Read_namespaced_service name namespace],
                 and_then (read_namespaced_service e name namespace) (\<lambda>svc.
                 and_then (service_summary namespace svc) (\<lambda>s. Inr (Some [s]))))
      else if n then ([Read_node name],
                 and_then (read_node e name) (\<lambda>node.
                 and_then (node_summary node) (\<lambda>s. Inr (Some [s]))))
      else if m then ([Read_namespace name],
                 and_then (read_namespace e name) (\<lambda>ns.
                 and_then (namespace_summary ns) (\<lambda>s. Inr (Some [s]))))
      else ([], Inr None))"
    unfolding get_result_def p_def d_def s_def n_def m_def
    by (simp only: assms(1) if_True)
  then show ?thesis
    using assms(2)
    by (auto split: if_splits dest: named_shape named_shape [OF sym])
qed

lemma kind_union:
  assumes "x \<in> set [''pod'', ''pods'']
       \<or> x \<in> set [''deployment'', ''deployments'']
       \<or> x \<in> set [''service'', ''services'', ''svc'']
       \<or> x \<in> set [''node'', ''nodes'']
       \<or> x \<in> set [''namespace'', ''namespaces'', ''ns'']"
  shows "x \<in> set [''pod'', ''pods'', ''deployment'', ''deployments'', ''service'',
             ''services'', ''svc'', ''node'', ''nodes'', ''namespace'', ''namespaces'', ''ns'']"
proof -
  have "set [''pod'', ''pods'', ''deployment'', ''deployments'', ''service'',
             ''services'', ''svc'', ''node'', ''nodes'', ''namespace'', ''namespaces'', ''ns'']
      = set [''pod'', ''pods''] \<union> set [''deployment'', ''deployments'']
        \<union> set [''service'', ''services'', ''svc''] \<union> set [''node'', ''nodes'']
        \<union> set [''namespace'', ''namespaces'', ''ns'']"
    unfolding set_append [symmetric] by (simp only: append.simps)
  with assms show ?thesis by (simp only: Un_iff) blast
qed

lemma web_pod_summary:
  "pod_summary (PStr ''default'') web_pod =
     Inr (PDict [(''name'', PStr ''web''), (''namespace'', PStr ''default''),
                 (''status'', PStr ''Running''), (''ready'', PStr ''1/2''),
                 (''restarts'', PInt 3), (''node'', PStr ''node-1'')])"
  by (simp add: pod_summary_def web_pod_def web_metadata_def web_spec_def web_status_def
        web_container_statuses_def attr_def or_empty_def opt_str_def str_int_small)

lemma pending_pod_summary:
  "pod_summary (PStr ''default'') pending_pod =
     Inr (PDict [(''name'', PStr ''job''), (''namespace'', PStr ''default''),
                 (''status'', PStr ''Pending''), (''ready'', PStr ''0/0''),
                 (''restarts'', PInt 0), (''node'', PNone)])"
  by (simp add: pod_summary_def pending_pod_def attr_def or_empty_def opt_str_def str_int_small)

lemma serving_get_web:
  "get_result serving ''pod'' (PStr ''default'') (PStr ''web'') =
     ([Read_namespaced_pod (PStr ''web'') (PStr ''default'')],
      Inr (Some [PDict [(''name'', PStr ''web''), (''namespace'', PStr ''default''),
                 (''status'', PStr ''Running''), (''ready'', PStr ''1/2''),
                 (''restarts'', PInt 3), (''node'', PStr ''node-1'')]]))"
  by (simp add: get_result_def serving_def web_pod_summary)

lemma serving_list_pods:
  "get_result serving ''pods'' (PStr ''default'') PNone =
     ([List_namespaced_pod (PStr ''default'')],
      Inr (Some [PDict [(''name'', PStr ''web''), (''namespace'', PStr ''default''),
                 (''status'', PStr ''Running''), (''ready'', PStr ''1/2''),
                 (''restarts'', PInt 3), (''node'', PStr ''node-1'')],
                 PDict [(''name'', PStr ''job''), (''namespace'', PStr ''default''),
                 (''status'', PStr ''Pending''), (''ready'', PStr ''0/0''),
                 (''restarts'', PInt 0), (''node'', PNone)]]))"
  by (simp add: get_result_def serving_def web_pod_summary pending_pod_summary)

text \<open>
  C1, as amended. Every successful get returns the JSON text of an array of summaries, with a
  name as without one: the payload is \<^verbatim>\<open>json.dumps\<close> of the list \<open>result\<close> and starts with an
  opening bracket. With a name the one control-plane call is the read of the kind, and the array
  holds exactly one element, the summary of the object read; without a name the one call is the
  list call of the kind, and the array holds the summaries of the objects listed, one per object
  and in their order. Every element is a dictionary with the fields of the kind's summary.
  Successful means that the \<^verbatim>\<open>try\<close> block reached \<^verbatim>\<open>json.dumps\<close> with the list \<open>result\<close>.
\<close>

theorem get_payload_is_array:
  assumes "arguments ''resource_type'' = Some (PStr token)"
    and "get_result e (lower token) (arg_get_default arguments ''namespace'' (PStr ''default''))
           (arg_get arguments ''name'') = (calls, Inr (Some result))"
  shows "call_tool e ''kubectl_get'' arguments =
           (calls, Inr [TextContent (json_dumps (PList result))])
       \<and> hd (json_dumps (PList result)) = CHR ''[''
       \<and> (truthy (arg_get arguments ''name'') \<longrightarrow> length result = 1)
       \<and> lower token \<in> set [''pod'', ''pods'', ''deployment'', ''deployments'', ''service'',
             ''services'', ''svc'', ''node'', ''nodes'', ''namespace'', ''namespaces'', ''ns'']
       \<and> (lower token \<in> set [''pod'', ''pods''] \<longrightarrow>
            calls = (if truthy (arg_get arguments ''name'')
                     then [Read_namespaced_pod (arg_get arguments ''name'') (arg_get_default arguments ''namespace'' (PStr ''default''))]
                     else [List_namespaced_pod (arg_get_default arguments ''namespace'' (PStr ''default''))])
            \<and> (\<exists>pods.
                  (if truthy (arg_get arguments ''name'')
                   then (\<exists>pod. read_namespaced_pod e (arg_get arguments ''name'') (arg_get_default arguments ''namespace'' (PStr ''default'')) = Inr pod
                           \<and> pods = [pod])
                   else list_namespaced_pod e (arg_get_default arguments ''namespace'' (PStr ''default'')) = Inr pods)
                \<and> map_exn (pod_summary (arg_get_default arguments ''namespace'' (PStr ''default''))) pods = Inr result
                \<and> length result = length pods)
            \<and> (\<forall>summary \<in> set result. \<exists>entries. summary = PDict entries
                  \<and> map fst entries =
                      [''name'', ''namespace'', ''status'', ''ready'', ''restarts'', ''node'']))
       \<and> (lower token \<in> set [''deployment'', ''deployments''] \<longrightarrow>
            calls = (if truthy (arg_get arguments ''name'')
                     then [Read_namespaced_deployment (arg_get arguments ''name'') (arg_get_default arguments ''namespace'' (PStr ''default''))]
                     else [List_namespaced_deployment (arg_get_default arguments ''namespace'' (PStr ''default''))])
            \<and> (\<exists>deployments.
                  (if truthy (arg_get arguments ''name'')
                   then (\<exists>dep. read_namespaced_deployment e (arg_get arguments ''name'') (arg_get_default arguments ''namespace'' (PStr ''default'')) = Inr dep
                           \<and> deployments = [dep])
                   else list_namespaced_deployment e (arg_get_default arguments ''namespace'' (PStr ''default'')) = Inr deployments)
                \<and> map_exn (deployment_summary (arg_get_default arguments ''namespace'' (PStr ''default''))) deployments = Inr result
                \<and> length result = length deployments)
            \<and> (\<forall>summary \<in> set result. \<exists>entries. summary = PDict entries
                  \<and> map fst entries =
                      [''name'', ''namespace'', ''ready'', ''up_to_date'', ''available'']))
       \<and> (lower token \<in> set [''service'', ''services'', ''svc''] \<longrightarrow>
            calls = (if truthy (arg_get arguments ''name'')
                     then [Read_namespaced_service (arg_get arguments ''name'') (arg_get_default arguments ''namespace'' (PStr ''default''))]
                     else [List_namespaced_service (arg_get_default arguments ''namespace'' (PStr ''default''))])
            \<and> (\<exists>services.
                  (if truthy (arg_get arguments ''name'')
                   then (\<exists>svc. read_namespaced_service e (arg_get arguments ''name'') (arg_get_default arguments ''namespace'' (PStr ''default'')) = Inr svc
                           \<and> services = [svc])
                   else list_namespaced_service e (arg_get_default arguments ''namespace'' (PStr ''default'')) = Inr services)
                \<and> map_exn (service_summary (arg_get_default arguments ''namespace'' (PStr ''default''))) services = Inr result
                \<and> length result = length services)
            \<and> (\<forall>summary \<in> set result. \<exists>entries. summary = PDict entries
                  \<and> map fst entries =
                      [''name'', ''namespace'', ''type'', ''cluster_ip'', ''external_ip'', ''ports'']))
       \<and> (lower token \<in> set [''node'', ''nodes''] \<longrightarrow>
            calls = (if truthy (arg_get arguments ''name'')
                     then [Read_node (arg_get arguments ''name'')]
                     else [List_node])
            \<and> (\<exists>nodes.
                  (if truthy (arg_get arguments ''name'')
                   then (\<exists>node. read_node e (arg_get arguments ''name'') = Inr node
                           \<and> nodes = [node])
                   else list_node e = Inr nodes)
                \<and> map_exn (node_summary) nodes = Inr result
                \<and> length result = length nodes)
            \<and> (\<forall>summary \<in> set result. \<exists>entries. summary = PDict entries
                  \<and> map fst entries =
                      [''name'', ''status'', ''roles'', ''version'', ''internal_ip'']))
       \<and> (lower token \<in> set [''namespace'', ''namespaces'', ''ns''] \<longrightarrow>
            calls = (if truthy (arg_get arguments ''name'')
                     then [Read_namespace (arg_get arguments ''name'')]
                     else [List_namespace])
            \<and> (\<exists>namespaces.
                  (if truthy (arg_get arguments ''name'')
                   then (\<exists>ns. read_namespace e (arg_get arguments ''name'') = Inr ns
                           \<and> namespaces = [ns])
                   else list_namespace e = Inr namespaces)
                \<and> map_exn (namespace_summary) namespaces = Inr result
                \<and> length result = length namespaces)
            \<and> (\<forall>summary \<in> set result. \<exists>entries. summary = PDict entries
                  \<and> map fst entries =
                      [''name'', ''status'', ''age'']))"
proof -
  have "token \<noteq> []"
    using assms(2) by (auto simp: lower_def get_result_empty_token)
  then have payload: "call_tool e ''kubectl_get'' arguments =
           (calls, Inr [TextContent (json_dumps (PList result))])"
    using assms by (simp add: call_tool_def kubectl_get_def arg_get_def Let_def py_lower_def)
  note fetched = get_result_fetched [OF assms(2)]
  have one: "truthy (arg_get arguments ''name'') \<longrightarrow> length result = 1"
    using get_result_named [OF _ assms(2)] by blast
  have any: "lower token \<in> set [''pod'', ''pods'', ''deployment'', ''deployments'', ''service'',
             ''services'', ''svc'', ''node'', ''nodes'', ''namespace'', ''namespaces'', ''ns'']"
    using get_result_kind [OF assms(2)] by (rule kind_union)
  show ?thesis
    by (intro conjI payload json_dumps_list_hd one any fetched [THEN conjunct1]
          fetched [THEN conjunct2, THEN conjunct1]
          fetched [THEN conjunct2, THEN conjunct2, THEN conjunct1]
          fetched [THEN conjunct2, THEN conjunct2, THEN conjunct2, THEN conjunct1]
          fetched [THEN conjunct2, THEN conjunct2, THEN conjunct2, THEN conjunct2])
qed

text \<open>
  The claim as stated fails: a get of the pod \<open>web\<close> by name returns the one-element array,
  whose text is not the text of the summary object alone.
\<close>

theorem get_payload_is_array_counterexample:
  "call_tool serving ''kubectl_get''
     [''resource_type'' \<mapsto> PStr ''pod'', ''name'' \<mapsto> PStr ''web''] =
     ([Read_namespaced_pod (PStr ''web'') (PStr ''default'')],
      Inr [TextContent (json_dumps (PList
        [PDict [(''name'', PStr ''web''), (''namespace'', PStr ''default''),
                (''status'', PStr ''Running''), (''ready'', PStr ''1/2''),
                (''restarts'', PInt 3), (''node'', PStr ''node-1'')]]))])
   \<and> json_dumps (PList
        [PDict [(''name'', PStr ''web''), (''namespace'', PStr ''default''),
                (''status'', PStr ''Running''), (''ready'', PStr ''1/2''),
                (''restarts'', PInt 3), (''node'', PStr ''node-1'')]])
     \<noteq> json_dumps
        (PDict [(''name'', PStr ''web''), (''namespace'', PStr ''default''),
                (''status'', PStr ''Running''), (''ready'', PStr ''1/2''),
                (''restarts'', PInt 3), (''node'', PStr ''node-1'')])"
proof -
  have "hd (json_dumps (PList
        [PDict [(''name'', PStr ''web''), (''namespace'', PStr ''default''),
                (''status'', PStr ''Running''), (''ready'', PStr ''1/2''),
                (''restarts'', PInt 3), (''node'', PStr ''node-1'')]]))
     \<noteq> hd (json_dumps
        (PDict [(''name'', PStr ''web''), (''namespace'', PStr ''default''),
                (''status'', PStr ''Running''), (''ready'', PStr ''1/2''),
                (''restarts'', PInt 3), (''node'', PStr ''node-1'')]))"
    by (simp only: json_dumps_list_hd json_dumps_dict_hd) simp
  then have "json_dumps (PList
        [PDict [(''name'', PStr ''web''), (''namespace'', PStr ''default''),
                (''status'', PStr ''Running''), (''ready'', PStr ''1/2''),
                (''restarts'', PInt 3), (''node'', PStr ''node-1'')]])
     \<noteq> json_dumps
        (PDict [(''name'', PStr ''web''), (''namespace'', PStr ''default''),
                (''status'', PStr ''Running''), (''ready'', PStr ''1/2''),
                (''restarts'', PInt 3), (''node'', PStr ''node-1'')])"
    by metis
  moreover have "call_tool serving ''kubectl_get''
     [''resource_type'' \<mapsto> PStr ''pod'', ''name'' \<mapsto> PStr ''web''] =
     ([Read_namespaced_pod (PStr ''web'') (PStr ''default'')],
      Inr [TextContent (json_dumps (PList
        [PDict [(''name'', PStr ''web''), (''namespace'', PStr ''default''),
                (''status'', PStr ''Running''), (''ready'', PStr ''1/2''),
                (''restarts'', PInt 3), (''node'', PStr ''node-1'')]]))])"
    by (simp add: call_tool_def kubectl_get_def arg_get_def arg_get_default_def Let_def
          py_lower_def lower_examples serving_get_web)
  ultimately show ?thesis by blast
qed

theorem get_payload_is_array_witness:
  "call_tool serving ''kubectl_get'' [''resource_type'' \<mapsto> PStr ''pods''] =
     ([List_namespaced_pod (PStr ''default'')],
      Inr [TextContent (json_dumps (PList
        [PDict [(''name'', PStr ''web''), (''namespace'', PStr ''default''),
                (''status'', PStr ''Running''), (''ready'', PStr ''1/2''),
                (''restarts'', PInt 3), (''node'', PStr ''node-1'')],
         PDict [(''name'', PStr ''job''), (''namespace'', PStr ''default''),
                (''status'', PStr ''Pending''), (''ready'', PStr ''0/0''),
                (''restarts'', PInt 0), (''node'', PNone)]]))])
   \<and> call_tool serving ''kubectl_get''
     [''resource_type'' \<mapsto> PStr ''pod'', ''name'' \<mapsto> PStr ''web''] =
     ([Read_namespaced_pod (PStr ''web'') (PStr ''default'')],
      Inr [TextContent (json_dumps (PList
        [PDict [(''name'', PStr ''web''), (''namespace'', PStr ''default''),
                (''status'', PStr ''Running''), (''ready'', PStr ''1/2''),
                (''restarts'', PInt 3), (''node'', PStr ''node-1'')]]))])"
proof -
  have listed: "get_result serving (lower ''pods'') (arg_get_default [''resource_type'' \<mapsto> PStr ''pods''] ''namespace'' (PStr ''default''))
        (arg_get [''resource_type'' \<mapsto> PStr ''pods''] ''name'') =
      ([List_namespaced_pod (PStr ''default'')], Inr (Some [PDict [(''name'', PStr ''web''), (''namespace'', PStr ''default''),
                (''status'', PStr ''Running''), (''ready'', PStr ''1/2''),
                (''restarts'', PInt 3), (''node'', PStr ''node-1'')],
         PDict [(''name'', PStr ''job''), (''namespace'', PStr ''default''),
                (''status'', PStr ''Pending''), (''ready'', PStr ''0/0''),
                (''restarts'', PInt 0), (''node'', PNone)]]))"
    by (simp add: arg_get_def arg_get_default_def lower_examples serving_list_pods)
  have named: "get_result serving (lower ''pod'') (arg_get_default [''resource_type'' \<mapsto> PStr ''pod'', ''name'' \<mapsto> PStr ''web''] ''namespace'' (PStr ''default''))
        (arg_get [''resource_type'' \<mapsto> PStr ''pod'', ''name'' \<mapsto> PStr ''web''] ''name'') =
      ([Read_namespaced_pod (PStr ''web'') (PStr ''default'')], Inr (Some [PDict [(''name'', PStr ''web''), (''namespace'', PStr ''default''),
                (''status'', PStr ''Running''), (''ready'', PStr ''1/2''),
                (''restarts'', PInt 3), (''node'', PStr ''node-1'')]]))"
    by (simp add: arg_get_def arg_get_default_def lower_examples serving_get_web)
  have "[''resource_type'' \<mapsto> PStr ''pods''] ''resource_type'' = Some (PStr ''pods'')"
    by simp
  from get_payload_is_array [OF this listed]
  have all_pods: "call_tool serving ''kubectl_get'' [''resource_type'' \<mapsto> PStr ''pods''] =
     ([List_namespaced_pod (PStr ''default'')],
      Inr [TextContent (json_dumps (PList
        [PDict [(''name'', PStr ''web''), (''namespace'', PStr ''default''),
                (''status'', PStr ''Running''), (''ready'', PStr ''1/2''),
                (''restarts'', PInt 3), (''node'', PStr ''node-1'')],
         PDict [(''name'', PStr ''job''), (''namespace'', PStr ''default''),
                (''status'', PStr ''Pending''), (''ready'', PStr ''0/0''),
                (''restarts'', PInt 0), (''node'', PNone)]]))])"
    by (rule conjunct1)
  have "[''resource_type'' \<mapsto> PStr ''pod'', ''name'' \<mapsto> PStr ''web''] ''resource_type'' = Some (PStr ''pod'')"
    by simp
  from get_payload_is_array [OF this named]
  have one_pod: "call_tool serving ''kubectl_get''
     [''resource_type'' \<mapsto> PStr ''pod'', ''name'' \<mapsto> PStr ''web''] =
     ([Read_namespaced_pod (PStr ''web'') (PStr ''default'')],
      Inr [TextContent (json_dumps (PList
        [PDict [(''name'', PStr ''web''), (''namespace'', PStr ''default''),
                (''status'', PStr ''Running''), (''ready'', PStr ''1/2''),
                (''restarts'', PInt 3), (''node'', PStr ''node-1'')]]))])"
    by (rule conjunct1)
  from all_pods one_pod show ?thesis by (rule conjI)
qed

section \<open>Kind resolution\<close>

lemma kubectl_get_token:
  "kubectl_get e (arguments(''resource_type'' \<mapsto> PStr token)) =
     (if token = [] then ([], Inr [TextContent ''Error: resource_type is required''])
      else case get_result e (lower token)
                  (arg_get_default arguments ''namespace'' (PStr ''default''))
                  (arg_get arguments ''name'') of
             (calls, Inl err) \<Rightarrow>
               (calls, Inr [TextContent (''Error getting resource: '' @ exn_str err)])
           | (calls, Inr None) \<Rightarrow>
               (calls, Inr [TextContent (''Unsupported resource type: '' @ lower token)])
           | (calls, Inr (Some result)) \<Rightarrow>
               (calls, Inr [TextContent (json_dumps (PList result))]))"
  by (simp add: kubectl_get_def arg_get_def arg_get_default_def Let_def py_lower_def
        split: prod.splits sum.splits option.splits)

lemma kubectl_describe_token:
  "kubectl_describe e (arguments(''resource_type'' \<mapsto> PStr token)) =
     (if token = [] then ([], Inr [TextContent ''Error: resource_type is required''])
      else if \<not> truthy (arg_get arguments ''name'') then
        ([], Inr [TextContent ''Error: name is required''])
      else case describe_result e (lower token)
                  (arg_get_default arguments ''namespace'' (PStr ''default''))
                  (arg_get arguments ''name'') of
             (calls, Inl err) \<Rightarrow>
               (calls, Inr [TextContent (''Error describing resource: '' @ exn_str err)])
           | (calls, Inr None) \<Rightarrow>
               (calls, Inr [TextContent (''Unsupported resource type: '' @ lower token)])
           | (calls, Inr (Some description)) \<Rightarrow>
               (calls, Inr [TextContent (json_dumps description)]))"
  by (simp add: kubectl_describe_def arg_get_def arg_get_default_def Let_def py_lower_def
        split: prod.splits sum.splits option.splits)

lemma get_case_insensitive:
  assumes "lower t1 = lower t2"
  shows "call_tool e ''kubectl_get'' (arguments(''resource_type'' \<mapsto> PStr t1)) =
         call_tool e ''kubectl_get'' (arguments(''resource_type'' \<mapsto> PStr t2))"
proof -
  have e: "(t1 = []) = (t2 = [])"
    using assms lower_Nil_iff by metis
  show ?thesis
    by (simp only: call_tool_ops kubectl_get_token assms e)
qed

lemma describe_case_insensitive:
  assumes "lower t1 = lower t2"
  shows "call_tool e ''kubectl_describe'' (arguments(''resource_type'' \<mapsto> PStr t1)) =
         call_tool e ''kubectl_describe'' (arguments(''resource_type'' \<mapsto> PStr t2))"
proof -
  have e: "(t1 = []) = (t2 = [])"
    using assms lower_Nil_iff by metis
  show ?thesis
    by (simp only: call_tool_ops kubectl_describe_token assms e)
qed

lemma and_then_assoc: "and_then (and_then m f) g = and_then m (\<lambda>x. and_then (f x) g)"
  by (cases m) simp_all

lemma spec_resolve_flags:
  assumes "spec_resolve t = r"
  shows "(r = Some Pod \<longleftrightarrow> lower t \<in> set [''pod'', ''pods''])
       \<and> (r = Some Deployment \<longleftrightarrow> lower t \<in> set [''deployment'', ''deployments''])
       \<and> (r = Some Service \<longleftrightarrow> lower t \<in> set [''service'', ''services'', ''svc''])
       \<and> (r = Some Node \<longleftrightarrow> lower t \<in> set [''node'', ''nodes''])
       \<and> (r = Some Namespace \<longleftrightarrow> lower t \<in> set [''namespace'', ''namespaces'', ''ns''])"
proof -
  define p where "p = (lower t \<in> set [''pod'', ''pods''])"
  define d where "d = (lower t \<in> set [''deployment'', ''deployments''])"
  define s where "s = (lower t \<in> set [''service'', ''services'', ''svc''])"
  define n where "n = (lower t \<in> set [''node'', ''nodes''])"
  define m where "m = (lower t \<in> set [''namespace'', ''namespaces'', ''ns''])"
  have excl: "\<not> (p \<and> d)" "\<not> (p \<and> s)" "\<not> (p \<and> n)" "\<not> (p \<and> m)" "\<not> (d \<and> s)"
    "\<not> (d \<and> n)" "\<not> (d \<and> m)" "\<not> (s \<and> n)" "\<not> (s \<and> m)" "\<not> (n \<and> m)"
    unfolding p_def d_def s_def n_def m_def by auto
  have sr: "spec_resolve t =
      (if p then Some Pod else if d then Some Deployment else if s then Some Service
       else if n then Some Node else if m then Some Namespace else None)"
    unfolding spec_resolve_def p_def d_def s_def n_def m_def ..
  have "(r = Some Pod \<longleftrightarrow> p) \<and> (r = Some Deployment \<longleftrightarrow> d) \<and> (r = Some Service \<longleftrightarrow> s)
      \<and> (r = Some Node \<longleftrightarrow> n) \<and> (r = Some Namespace \<longleftrightarrow> m)"
    using assms excl unfolding sr by (auto split: if_splits)
  then show ?thesis
    unfolding p_def d_def s_def n_def m_def .
qed

lemma spec_resolve_None:
  assumes "spec_resolve t = None"
  shows "get_result e (lower t) namespace name = ([], Inr None)"
    and "describe_result e (lower t) namespace name = ([], Inr None)"
proof -
  note f = spec_resolve_flags [OF assms]
  have "lower t \<notin> set [''pod'', ''pods'']"
    "lower t \<notin> set [''deployment'', ''deployments'']"
    "lower t \<notin> set [''service'', ''services'', ''svc'']"
    "lower t \<notin> set [''node'', ''nodes'']"
    "lower t \<notin> set [''namespace'', ''namespaces'', ''ns'']"
    using f by blast+
  then show "get_result e (lower t) namespace name = ([], Inr None)"
    "describe_result e (lower t) namespace name = ([], Inr None)"
    unfolding get_result_def describe_result_def by (simp_all only: if_False)
qed

lemma get_result_routed:
  assumes "spec_resolve t = Some k"
  shows "get_result e (lower t) namespace name =
     (if truthy name then
        (case spec_summarize_one e k name namespace of
           (c, r) \<Rightarrow> ([c], and_then r (\<lambda>s. Inr (Some [s]))))
      else
        (case spec_summarize_all e k namespace of
           (c, r) \<Rightarrow> ([c], and_then r (\<lambda>ss. Inr (Some ss)))))"
proof -
  note f = spec_resolve_flags [OF assms]
  show ?thesis
  proof (cases k)
    case Pod
    with f have "lower t \<in> set [''pod'', ''pods'']" by blast
    then show ?thesis
      unfolding get_result_def Pod
      by (simp only: if_True) (simp add: and_then_assoc)
  next
    case Deployment
    with f have "lower t \<notin> set [''pod'', ''pods'']"
      "lower t \<in> set [''deployment'', ''deployments'']" by blast+
    then show ?thesis
      unfolding get_result_def Deployment
      by (simp only: if_True if_False) (simp add: and_then_assoc)
  next
    case Service
    with f have "lower t \<notin> set [''pod'', ''pods'']"
      "lower t \<notin> set [''deployment'', ''deployments'']"
      "lower t \<in> set [''service'', ''services'', ''svc'']" by blast+
    then show ?thesis
      unfolding get_result_def Service
      by (simp only: if_True if_False) (simp add: and_then_assoc)
  next
    case Node
    with f have "lower t \<notin> set [''pod'', ''pods'']"
      "lower t \<notin> set [''deployment'', ''deployments'']"
      "lower t \<notin> set [''service'', ''services'', ''svc'']"
      "lower t \<in> set [''node'', ''nodes'']" by blast+
    then show ?thesis
      unfolding get_result_def Node
      by (simp only: if_True if_False) (simp add: and_then_assoc)
  next
    case Namespace
    with f have "lower t \<notin> set [''pod'', ''pods'']"
      "lower t \<notin> set [''deployment'', ''deployments'']"
      "lower t \<notin> set [''service'', ''services'', ''svc'']"
      "lower t \<notin> set [''node'', ''nodes'']"
      "lower t \<in> set [''namespace'', ''namespaces'', ''ns'']" by blast+
    then show ?thesis
      unfolding get_result_def Namespace
      by (simp only: if_True if_False) (simp add: and_then_assoc)
  qed
qed

lemma describe_result_routed:
  assumes "spec_resolve t = Some k"
  shows "describe_result e (lower t) namespace name =
     (case spec_detail_one e k name namespace of
        None \<Rightarrow> ([], Inr None)
      | Some (c, r) \<Rightarrow> ([c], and_then r (\<lambda>d. Inr (Some d))))"
proof -
  note f = spec_resolve_flags [OF assms]
  show ?thesis
  proof (cases k)
    case Pod
    with f have "lower t \<in> set [''pod'', ''pods'']" by blast
    then show ?thesis
      unfolding describe_result_def Pod
      by (simp only: if_True) (simp add: and_then_assoc)
  next
    case Deployment
    with f have "lower t \<notin> set [''pod'', ''pods'']"
      "lower t \<in> set [''deployment'', ''deployments'']" by blast+
    then show ?thesis
      unfolding describe_result_def Deployment
      by (simp only: if_True if_False) (simp add: and_then_assoc)
  next
    case Service
    with f have "lower t \<notin> set [''pod'', ''pods'']"
      "lower t \<notin> set [''deployment'', ''deployments'']"
      "lower t \<in> set [''service'', ''services'', ''svc'']" by blast+
    then show ?thesis
      unfolding describe_result_def Service
      by (simp only: if_True if_False) (simp add: and_then_assoc)
  next
    case Node
    with f have "lower t \<notin> set [''pod'', ''pods'']"
      "lower t \<notin> set [''deployment'', ''deployments'']"
      "lower t \<notin> set [''service'', ''services'', ''svc'']"
      "lower t \<in> set [''node'', ''nodes'']" by blast+
    then show ?thesis
      unfolding describe_result_def Node
      by (simp only: if_True if_False) (simp add: and_then_assoc)
  next
    case Namespace
    with f have "lower t \<notin> set [''pod'', ''pods'']"
      "lower t \<notin> set [''deployment'', ''deployments'']"
      "lower t \<notin> set [''service'', ''services'', ''svc'']"
      "lower t \<notin> set [''node'', ''nodes'']" by blast+
    then show ?thesis
      unfolding describe_result_def Namespace
      by (simp only: if_True if_False) simp
  qed
qed

lemma spec_resolve_not_Nil: "spec_resolve t = Some k \<Longrightarrow> t \<noteq> []"
  by (auto simp: spec_resolve_def lower_def)

lemma get_routed:
  assumes "spec_resolve t = Some k"
  shows "call_tool e ''kubectl_get'' (arguments(''resource_type'' \<mapsto> PStr t)) =
     (if truthy (arg_get arguments ''name'') then
        (case spec_summarize_one e k (arg_get arguments ''name'')
                (arg_get_default arguments ''namespace'' (PStr ''default'')) of
           (c, Inl err) \<Rightarrow>
             ([c], Inr [TextContent (''Error getting resource: '' @ exn_str err)])
         | (c, Inr summary) \<Rightarrow>
             ([c], Inr [TextContent (json_dumps (PList [summary]))]))
      else
        (case spec_summarize_all e k
                (arg_get_default arguments ''namespace'' (PStr ''default'')) of
           (c, Inl err) \<Rightarrow>
             ([c], Inr [TextContent (''Error getting resource: '' @ exn_str err)])
         | (c, Inr summaries) \<Rightarrow>
             ([c], Inr [TextContent (json_dumps (PList summaries))])))"
proof -
  let ?ns = "arg_get_default arguments ''namespace'' (PStr ''default'')"
  let ?name = "arg_get arguments ''name''"
  note t = spec_resolve_not_Nil [OF assms]
  note g = get_result_routed [OF assms, of e ?ns ?name]
  show ?thesis
  proof (cases "truthy ?name")
    case True
    obtain c r where r: "spec_summarize_one e k ?name ?ns = (c, r)"
      by (cases "spec_summarize_one e k ?name ?ns")
    with True g have "get_result e (lower t) ?ns ?name = ([c], and_then r (\<lambda>s. Inr (Some [s])))"
      by simp
    then show ?thesis
      using t True r by (cases r) (simp_all add: call_tool_ops kubectl_get_token)
  next
    case False
    obtain c r where r: "spec_summarize_all e k ?ns = (c, r)"
      by (cases "spec_summarize_all e k ?ns")
    with False g have "get_result e (lower t) ?ns ?name = ([c], and_then r (\<lambda>ss. Inr (Some ss)))"
      by simp
    then show ?thesis
      using t False r by (cases r) (simp_all add: call_tool_ops kubectl_get_token)
  qed
qed

lemma describe_routed:
  assumes "spec_resolve t = Some k" and "truthy (arg_get arguments ''name'')"
  shows "call_tool e ''kubectl_describe'' (arguments(''resource_type'' \<mapsto> PStr t)) =
     (case spec_detail_one e k (arg_get arguments ''name'')
             (arg_get_default arguments ''namespace'' (PStr ''default'')) of
        None \<Rightarrow> ([], Inr [TextContent (''Unsupported resource type: '' @ lower t)])
      | Some (c, Inl err) \<Rightarrow>
          ([c], Inr [TextContent (''Error describing resource: '' @ exn_str err)])
      | Some (c, Inr detail) \<Rightarrow> ([c], Inr [TextContent (json_dumps detail)]))"
proof -
  let ?ns = "arg_get_default arguments ''namespace'' (PStr ''default'')"
  let ?name = "arg_get arguments ''name''"
  note t = spec_resolve_not_Nil [OF assms(1)]
  note g = describe_result_routed [OF assms(1), of e ?ns ?name]
  show ?thesis
  proof (cases "spec_detail_one e k ?name ?ns")
    case None
    with g have "describe_result e (lower t) ?ns ?name = ([], Inr None)" by simp
    then show ?thesis
      using t assms(2) None by (simp add: call_tool_ops kubectl_describe_token)
  next
    case (Some h)
    obtain c r where h: "h = (c, r)" by (cases h)
    with Some g have "describe_result e (lower t) ?ns ?name =
        ([c], and_then r (\<lambda>d. Inr (Some d)))" by simp
    then show ?thesis
      using t assms(2) Some h by (cases r) (simp_all add: call_tool_ops kubectl_describe_token)
  qed
qed

lemma unresolved_token:
  assumes "spec_resolve t = None" and "t \<noteq> []"
  shows "call_tool e ''kubectl_get'' (arguments(''resource_type'' \<mapsto> PStr t)) =
           ([], Inr [TextContent (''Unsupported resource type: '' @ lower t)])"
    and "truthy (arg_get arguments ''name'') \<Longrightarrow>
         call_tool e ''kubectl_describe'' (arguments(''resource_type'' \<mapsto> PStr t)) =
           ([], Inr [TextContent (''Unsupported resource type: '' @ lower t)])"
  using assms(2)
  by (simp_all add: call_tool_ops kubectl_get_token kubectl_describe_token
        spec_resolve_None [OF assms(1)])

lemma delete_manifest_dispatch:
  assumes "map_of manifest ''kind'' = Some (PStr kind)" and "kind \<noteq> []"
    and "map_of manifest ''metadata'' = Some (PDict metadata)"
    and "map_of metadata ''name'' = Some resource_name" and "truthy resource_name"
    and "resource_namespace =
           (if truthy namespace then namespace
            else case map_of metadata ''namespace'' of None \<Rightarrow> PStr ''default'' | Some v \<Rightarrow> v)"
  shows "delete_manifest e (PDict manifest) namespace =
     (if lower kind = ''pod'' then
        ([Delete_namespaced_pod resource_name resource_namespace],
         and_then (delete_namespaced_pod e resource_name resource_namespace)
           (\<lambda>ack. Inr (''Successfully deleted '' @ lower kind @ ''/'' @ py_str e resource_name
                        @ '' from namespace '' @ py_str e resource_namespace)))
      else if lower kind = ''deployment'' then
        ([Delete_namespaced_deployment resource_name resource_namespace],
         and_then (delete_namespaced_deployment e resource_name resource_namespace)
           (\<lambda>ack. Inr (''Successfully deleted '' @ lower kind @ ''/'' @ py_str e resource_name
                        @ '' from namespace '' @ py_str e resource_namespace)))
      else if lower kind = ''service'' then
        ([Delete_namespaced_service resource_name resource_namespace],
         and_then (delete_namespaced_service e resource_name resource_namespace)
           (\<lambda>ack. Inr (''Successfully deleted '' @ lower kind @ ''/'' @ py_str e resource_name
                        @ '' from namespace '' @ py_str e resource_namespace)))
      else ([], Inr (''Generic deletion not fully implemented for '' @ lower kind)))"
proof -
  have k: "lower kind \<noteq> []"
    using assms(2) by (simp add: lower_Nil_iff)
  have ns: "(if truthy namespace then Inr namespace
             else and_then (py_get (PDict manifest) ''metadata'' (PDict []))
                    (\<lambda>m. py_get m ''namespace'' (PStr ''default''))) = Inr resource_namespace"
    unfolding assms(6) delete_manifest_named(2) [OF assms(3,4)] by simp
  show ?thesis
    unfolding delete_manifest_kind [OF assms(1)] delete_manifest_named(1) [OF assms(3,4)] ns
    using k assms(5) by (simp only: sum.case not_True_eq_False if_False Let_def simp_thms)
qed

lemma delete_manifest_routed:
  assumes "map_of manifest ''kind'' = Some (PStr kind)" and "kind \<noteq> []"
    and "map_of manifest ''metadata'' = Some (PDict metadata)"
    and "map_of metadata ''name'' = Some resource_name" and "truthy resource_name"
    and "resource_namespace =
           (if truthy namespace then namespace
            else case map_of metadata ''namespace'' of None \<Rightarrow> PStr ''default'' | Some v \<Rightarrow> v)"
    and "lower kind = canonical k"
  shows "delete_manifest e (PDict manifest) namespace =
     (case spec_delete_one e k resource_name resource_namespace of
        None \<Rightarrow> ([], Inr (''Generic deletion not fully implemented for '' @ canonical k))
      | Some (c, r) \<Rightarrow>
          ([c], and_then r (\<lambda>ack. Inr (''Successfully deleted '' @ canonical k @ ''/''
                  @ py_str e resource_name @ '' from namespace ''
                  @ py_str e resource_namespace))))"
  unfolding delete_manifest_dispatch [OF assms(1-6)] assms(7)
  by (cases k) simp_all

lemma delete_manifest_unrouted:
  assumes "map_of manifest ''kind'' = Some (PStr kind)" and "kind \<noteq> []"
    and "map_of manifest ''metadata'' = Some (PDict metadata)"
    and "map_of metadata ''name'' = Some resource_name" and "truthy resource_name"
    and "\<forall>k. lower kind \<noteq> canonical k"
  shows "delete_manifest e (PDict manifest) namespace =
     ([], Inr (''Generic deletion not fully implemented for '' @ lower kind))"
proof -
  have "lower kind \<noteq> ''pod''" "lower kind \<noteq> ''deployment''" "lower kind \<noteq> ''service''"
    using assms(6) [rule_format, of Pod] assms(6) [rule_format, of Deployment]
      assms(6) [rule_format, of Service] by simp_all
  then show ?thesis
    unfolding delete_manifest_dispatch [OF assms(1-5) refl]
    by (simp only: if_False)
qed

lemma delete_loaded_update:
  assumes "truthy y" and "safe_load e y = Inr manifest"
    and "delete_manifest e manifest (arg_get arguments ''namespace'') = (calls, r)"
  shows "call_tool e ''kubectl_delete'' (arguments(''yaml_content'' \<mapsto> y)) =
           (calls, Inr [TextContent
              (case r of Inl err \<Rightarrow> ''Error deleting resource: '' @ exn_str err
                       | Inr text \<Rightarrow> text)])"
  using assms delete_loaded [of "arguments(''yaml_content'' \<mapsto> y)" e manifest calls r]
  by (simp add: arg_get_def)

lemma delete_routed:
  assumes "truthy y" and "safe_load e y = Inr (PDict manifest)"
    and "map_of manifest ''kind'' = Some (PStr kind)" and "kind \<noteq> []"
    and "map_of manifest ''metadata'' = Some (PDict metadata)"
    and "map_of metadata ''name'' = Some resource_name" and "truthy resource_name"
    and "resource_namespace =
           (if truthy (arg_get arguments ''namespace'') then arg_get arguments ''namespace''
            else case map_of metadata ''namespace'' of None \<Rightarrow> PStr ''default'' | Some v \<Rightarrow> v)"
    and "lower kind = canonical k"
  shows "call_tool e ''kubectl_delete'' (arguments(''yaml_content'' \<mapsto> y)) =
     (case spec_delete_one e k resource_name resource_namespace of
        None \<Rightarrow>
          ([], Inr [TextContent (''Generic deletion not fully implemented for '' @ canonical k)])
      | Some (c, Inl err) \<Rightarrow>
          ([c], Inr [TextContent (''Error deleting resource: '' @ exn_str err)])
      | Some (c, Inr ack) \<Rightarrow>
          ([c], Inr [TextContent (''Successfully deleted '' @ canonical k @ ''/''
                  @ py_str e resource_name @ '' from namespace ''
                  @ py_str e resource_namespace)]))"
proof -
  note m = delete_manifest_routed [OF assms(3-9), of e]
  show ?thesis
  proof (cases "spec_delete_one e k resource_name resource_namespace")
    case None
    with m have "delete_manifest e (PDict manifest) (arg_get arguments ''namespace'') =
        ([], Inr (''Generic deletion not fully implemented for '' @ canonical k))"
      by simp
    from delete_loaded_update [OF assms(1,2) this] None show ?thesis by simp
  next
    case (Some h)
    obtain c r where h: "h = (c, r)" by (cases h)
    with Some m have "delete_manifest e (PDict manifest) (arg_get arguments ''namespace'') =
        ([c], and_then r (\<lambda>ack. Inr (''Successfully deleted '' @ canonical k @ ''/''
                  @ py_str e resource_name @ '' from namespace ''
                  @ py_str e resource_namespace)))"
      by simp
    from delete_loaded_update [OF assms(1,2) this] Some h show ?thesis
      by (cases r) simp_all
  qed
qed

lemma delete_unrouted:
  assumes "truthy y" and "safe_load e y = Inr (PDict manifest)"
    and "map_of manifest ''kind'' = Some (PStr kind)" and "kind \<noteq> []"
    and "map_of manifest ''metadata'' = Some (PDict metadata)"
    and "map_of metadata ''name'' = Some resource_name" and "truthy resource_name"
    and "\<forall>k. lower kind \<noteq> canonical k"
  shows "call_tool e ''kubectl_delete'' (arguments(''yaml_content'' \<mapsto> y)) =
     ([], Inr [TextContent (''Generic deletion not fully implemented for '' @ lower kind)])"
  using delete_loaded_update [OF assms(1,2) delete_manifest_unrouted [OF assms(3-8)]]
  by simp

text \<open>
  C6, as amended. Get and describe resolve the kind token without regard to letter case over
  the alias sets of the specification's router, and reach the handler of the kind resolved:
  tokens equal up to letter case resolve alike and give the same outcome; for a token that
  resolves to a kind, get makes the one call of that kind's handler, its fetchOne when the name
  is truthy and its fetchAll otherwise, and returns the JSON array of the summaries or the
  error text; describe, given a truthy name, makes the fetchOne call of that kind and returns
  the JSON text of its detail or the error text, and for a Namespace token, the kind without
  a detail handler, makes no call and reports the lower-cased token unsupported; a non-empty
  token that resolves to no kind is reported unsupported, with no call. Delete does not
  resolve aliases: for a manifest that is a mapping with a non-empty string \<open>kind\<close> and a
  \<open>metadata\<close> mapping with a truthy \<open>name\<close>, the kind is compared, in lower case, with the
  canonical names only. When it is the canonical name of a kind, delete makes the deleteOne
  call of that kind with the manifest's name and the namespace (the argument if truthy, else
  \<open>metadata.namespace\<close>, else \<^verbatim>\<open>default\<close>), or, for Node and Namespace, which have none, makes
  no call and returns the generic text; when it is no canonical name, an alias such as
  \<^verbatim>\<open>pods\<close> included, delete makes no call and returns the generic text.
\<close>

theorem kind_resolution:
  "(lower t1 = lower t2 \<longrightarrow>
      spec_resolve t1 = spec_resolve t2
    \<and> call_tool e ''kubectl_get'' (arguments(''resource_type'' \<mapsto> PStr t1)) =
      call_tool e ''kubectl_get'' (arguments(''resource_type'' \<mapsto> PStr t2))
    \<and> call_tool e ''kubectl_describe'' (arguments(''resource_type'' \<mapsto> PStr t1)) =
      call_tool e ''kubectl_describe'' (arguments(''resource_type'' \<mapsto> PStr t2)))
   \<and> (spec_resolve t = Some k \<longrightarrow>
      call_tool e ''kubectl_get'' (arguments(''resource_type'' \<mapsto> PStr t)) =
        (if truthy (arg_get arguments ''name'') then
           (case spec_summarize_one e k (arg_get arguments ''name'')
                   (arg_get_default arguments ''namespace'' (PStr ''default'')) of
              (c, Inl err) \<Rightarrow>
                ([c], Inr [TextContent (''Error getting resource: '' @ exn_str err)])
            | (c, Inr summary) \<Rightarrow>
                ([c], Inr [TextContent (json_dumps (PList [summary]))]))
         else
           (case spec_summarize_all e k
                   (arg_get_default arguments ''namespace'' (PStr ''default'')) of
              (c, Inl err) \<Rightarrow>
                ([c], Inr [TextContent (''Error getting resource: '' @ exn_str err)])
            | (c, Inr summaries) \<Rightarrow>
                ([c], Inr [TextContent (json_dumps (PList summaries))]))))
   \<and> (spec_resolve t = Some k \<and> truthy (arg_get arguments ''name'') \<longrightarrow>
      call_tool e ''kubectl_describe'' (arguments(''resource_type'' \<mapsto> PStr t)) =
        (case spec_detail_one e k (arg_get arguments ''name'')
                (arg_get_default arguments ''namespace'' (PStr ''default'')) of
           None \<Rightarrow> ([], Inr [TextContent (''Unsupported resource type: '' @ lower t)])
         | Some (c, Inl err) \<Rightarrow>
             ([c], Inr [TextContent (''Error describing resource: '' @ exn_str err)])
         | Some (c, Inr detail) \<Rightarrow> ([c], Inr [TextContent (json_dumps detail)])))
   \<and> (spec_resolve t = None \<and> t \<noteq> [] \<longrightarrow>
      call_tool e ''kubectl_get'' (arguments(''resource_type'' \<mapsto> PStr t)) =
        ([], Inr [TextContent (''Unsupported resource type: '' @ lower t)])
    \<and> (truthy (arg_get arguments ''name'') \<longrightarrow>
        call_tool e ''kubectl_describe'' (arguments(''resource_type'' \<mapsto> PStr t)) =
          ([], Inr [TextContent (''Unsupported resource type: '' @ lower t)])))
   \<and> (truthy y \<and> safe_load e y = Inr (PDict manifest)
       \<and> map_of manifest ''kind'' = Some (PStr kind) \<and> kind \<noteq> []
       \<and> map_of manifest ''metadata'' = Some (PDict metadata)
       \<and> map_of metadata ''name'' = Some resource_name \<and> truthy resource_name
       \<and> resource_namespace =
           (if truthy (arg_get arguments ''namespace'') then arg_get arguments ''namespace''
            else case map_of metadata ''namespace'' of
                   None \<Rightarrow> PStr ''default'' | Some v \<Rightarrow> v) \<longrightarrow>
      (lower kind = canonical dk \<longrightarrow>
         call_tool e ''kubectl_delete'' (arguments(''yaml_content'' \<mapsto> y)) =
           (case spec_delete_one e dk resource_name resource_namespace of
              None \<Rightarrow>
                ([], Inr [TextContent
                   (''Generic deletion not fully implemented for '' @ canonical dk)])
            | Some (c, Inl err) \<Rightarrow>
                ([c], Inr [TextContent (''Error deleting resource: '' @ exn_str err)])
            | Some (c, Inr ack) \<Rightarrow>
                ([c], Inr [TextContent (''Successfully deleted '' @ canonical dk @ ''/''
                        @ py_str e resource_name @ '' from namespace ''
                        @ py_str e resource_namespace)])))
    \<and> ((\<forall>k. lower kind \<noteq> canonical k) \<longrightarrow>
         call_tool e ''kubectl_delete'' (arguments(''yaml_content'' \<mapsto> y)) =
           ([], Inr [TextContent
              (''Generic deletion not fully implemented for '' @ lower kind)])))"
proof (intro conjI impI, goal_cases)
  case 1
  then show ?case by (simp add: spec_resolve_def)
next
  case 2
  then show ?case by (rule get_case_insensitive)
next
  case 3
  then show ?case by (rule describe_case_insensitive)
next
  case 4
  then show ?case by (rule get_routed)
next
  case 5
  then show ?case by (elim conjE) (rule describe_routed)
next
  case 6
  then show ?case by (elim conjE) (rule unresolved_token(1))
next
  case 7
  then show ?case by (elim conjE) (rule unresolved_token(2))
next
  case 8
  then show ?case by (elim conjE) (rule delete_routed)
next
  case 9
  then show ?case by (elim conjE) (rule delete_unrouted)
qed

text \<open>
  The claim as stated fails: the alias \<^verbatim>\<open>pods\<close> resolves to Pod, yet a delete of a manifest of
  kind \<^verbatim>\<open>pods\<close> calls no delete handler while kind \<^verbatim>\<open>Pod\<close> deletes the pod; the alias
  \<^verbatim>\<open>ns\<close> resolves to Namespace, yet describe reports it unsupported while get reads the
  namespace.
\<close>

theorem kind_resolution_counterexample:
  "spec_resolve ''pods'' = Some Pod
   \<and> call_tool (parsing manifests)
       ''kubectl_delete'' [''yaml_content'' \<mapsto> PStr ''{kind: pods, metadata: {name: web}}''] =
     ([], Inr [TextContent ''Generic deletion not fully implemented for pods''])
   \<and> call_tool (parsing manifests)
       ''kubectl_delete'' [''yaml_content'' \<mapsto> PStr ''{kind: Pod, metadata: {name: web}}''] =
     ([Delete_namespaced_pod (PStr ''web'') (PStr ''default'')],
      Inr [TextContent ''Successfully deleted pod/web from namespace default''])
   \<and> spec_resolve ''ns'' = Some Namespace
   \<and> call_tool offline ''kubectl_describe''
       [''resource_type'' \<mapsto> PStr ''ns'', ''name'' \<mapsto> PStr ''prod''] =
     ([], Inr [TextContent ''Unsupported resource type: ns''])
   \<and> call_tool offline ''kubectl_get''
       [''resource_type'' \<mapsto> PStr ''ns'', ''name'' \<mapsto> PStr ''prod''] =
     ([Read_namespace (PStr ''prod'')],
      Inr [TextContent ''Error getting resource: (503) Service Unavailable''])"
proof -
  have "spec_resolve ''pods'' = Some Pod" "spec_resolve ''ns'' = Some Namespace"
    by (simp_all add: spec_resolve_def lower_examples)
  moreover have "call_tool (parsing manifests)
       ''kubectl_delete'' [''yaml_content'' \<mapsto> PStr ''{kind: pods, metadata: {name: web}}''] =
     ([], Inr [TextContent ''Generic deletion not fully implemented for pods''])"
    by (simp add: call_tool_ops kubectl_delete_def delete_result_def safe_load_def Let_def
          arg_get_def parsing_manifests delete_manifest_def py_get_def py_lower_def
          lower_examples)
  moreover have "call_tool (parsing manifests)
       ''kubectl_delete'' [''yaml_content'' \<mapsto> PStr ''{kind: Pod, metadata: {name: web}}''] =
     ([Delete_namespaced_pod (PStr ''web'') (PStr ''default'')],
      Inr [TextContent ''Successfully deleted pod/web from namespace default''])"
    by (simp add: call_tool_ops kubectl_delete_def delete_result_def safe_load_def Let_def
          arg_get_def parsing_manifests delete_web_manifest)
  moreover have "call_tool offline ''kubectl_describe''
       [''resource_type'' \<mapsto> PStr ''ns'', ''name'' \<mapsto> PStr ''prod''] =
     ([], Inr [TextContent ''Unsupported resource type: ns''])"
    by (simp add: call_tool_ops kubectl_describe_def arg_get_def arg_get_default_def Let_def
          py_lower_def lower_examples describe_result_def)
  moreover have "call_tool offline ''kubectl_get''
       [''resource_type'' \<mapsto> PStr ''ns'', ''name'' \<mapsto> PStr ''prod''] =
     ([Read_namespace (PStr ''prod'')],
      Inr [TextContent ''Error getting resource: (503) Service Unavailable''])"
    by (simp add: call_tool_ops kubectl_get_def arg_get_def arg_get_default_def Let_def
          py_lower_def lower_examples get_result_def offline_def unavailable_def)
  ultimately show ?thesis by blast
qed

theorem kind_resolution_witness:
  "call_tool serving ''kubectl_get''
     [''name'' \<mapsto> PStr ''web'', ''resource_type'' \<mapsto> PStr ''POD''] =
   call_tool serving ''kubectl_get''
     [''name'' \<mapsto> PStr ''web'', ''resource_type'' \<mapsto> PStr ''pod'']
   \<and> call_tool serving ''kubectl_get''
     [''name'' \<mapsto> PStr ''web'', ''resource_type'' \<mapsto> PStr ''pods''] =
     ([Read_namespaced_pod (PStr ''web'') (PStr ''default'')],
      Inr [TextContent (json_dumps (PList
        [PDict [(''name'', PStr ''web''), (''namespace'', PStr ''default''),
                (''status'', PStr ''Running''), (''ready'', PStr ''1/2''),
                (''restarts'', PInt 3), (''node'', PStr ''node-1'')]]))])
   \<and> call_tool offline ''kubectl_describe''
     [''name'' \<mapsto> PStr ''db'', ''resource_type'' \<mapsto> PStr ''SVC''] =
     ([Read_namespaced_service (PStr ''db'') (PStr ''default'')],
      Inr [TextContent ''Error describing resource: (503) Service Unavailable''])
   \<and> call_tool offline ''kubectl_describe''
     [''name'' \<mapsto> PStr ''prod'', ''resource_type'' \<mapsto> PStr ''ns''] =
     ([], Inr [TextContent ''Unsupported resource type: ns''])
   \<and> call_tool offline ''kubectl_get'' [''resource_type'' \<mapsto> PStr ''ConfigMap''] =
     ([], Inr [TextContent ''Unsupported resource type: configmap''])
   \<and> call_tool (parsing manifests) ''kubectl_delete''
       [''yaml_content'' \<mapsto> PStr ''{kind: Pod, metadata: {name: web}}''] =
     ([Delete_namespaced_pod (PStr ''web'') (PStr ''default'')],
      Inr [TextContent ''Successfully deleted pod/web from namespace default''])
   \<and> call_tool (parsing manifests) ''kubectl_delete''
       [''yaml_content'' \<mapsto> PStr ''{kind: Node, metadata: {name: worker-1}}''] =
     ([], Inr [TextContent ''Generic deletion not fully implemented for node''])
   \<and> call_tool (parsing manifests) ''kubectl_delete''
       [''yaml_content'' \<mapsto> PStr ''{kind: pods, metadata: {name: web}}''] =
     ([], Inr [TextContent ''Generic deletion not fully implemented for pods''])"
proof -
  have r: "spec_resolve ''pods'' = Some Pod" "spec_resolve ''SVC'' = Some Service"
    "spec_resolve ''ns'' = Some Namespace" "spec_resolve ''ConfigMap'' = None"
    by (simp_all add: spec_resolve_def lower_examples)
  have l: "lower ''POD'' = lower ''pod''"
    by (simp add: lower_examples)
  have w1: "call_tool serving ''kubectl_get''
     [''name'' \<mapsto> PStr ''web'', ''resource_type'' \<mapsto> PStr ''POD''] =
   call_tool serving ''kubectl_get''
     [''name'' \<mapsto> PStr ''web'', ''resource_type'' \<mapsto> PStr ''pod'']"
    using kind_resolution
      [where ?t1.0 = "''POD''" and ?t2.0 = "''pod''" and e = serving
         and arguments = "[''name'' \<mapsto> PStr ''web'']",
       THEN conjunct1, THEN mp, OF l]
    by (rule conjunct2 [THEN conjunct1])
  have w2: "call_tool serving ''kubectl_get''
     [''name'' \<mapsto> PStr ''web'', ''resource_type'' \<mapsto> PStr ''pods''] =
     ([Read_namespaced_pod (PStr ''web'') (PStr ''default'')],
      Inr [TextContent (json_dumps (PList
        [PDict [(''name'', PStr ''web''), (''namespace'', PStr ''default''),
                (''status'', PStr ''Running''), (''ready'', PStr ''1/2''),
                (''restarts'', PInt 3), (''node'', PStr ''node-1'')]]))])"
    using kind_resolution
      [where e = serving and arguments = "[''name'' \<mapsto> PStr ''web'']" and t = "''pods''"
         and k = Pod,
       THEN conjunct2, THEN conjunct1, THEN mp, OF r(1)]
    by (simp add: arg_get_def arg_get_default_def serving_def web_pod_summary)
  have w3: "call_tool offline ''kubectl_describe''
     [''name'' \<mapsto> PStr ''db'', ''resource_type'' \<mapsto> PStr ''SVC''] =
     ([Read_namespaced_service (PStr ''db'') (PStr ''default'')],
      Inr [TextContent ''Error describing resource: (503) Service Unavailable''])"
    using kind_resolution
      [where e = offline and arguments = "[''name'' \<mapsto> PStr ''db'']" and t = "''SVC''"
         and k = Service,
       THEN conjunct2, THEN conjunct2, THEN conjunct1, THEN mp] r(2)
    by (simp add: arg_get_def arg_get_default_def offline_def unavailable_def)
  have w4: "call_tool offline ''kubectl_describe''
     [''name'' \<mapsto> PStr ''prod'', ''resource_type'' \<mapsto> PStr ''ns''] =
     ([], Inr [TextContent ''Unsupported resource type: ns''])"
    using kind_resolution
      [where e = offline and arguments = "[''name'' \<mapsto> PStr ''prod'']" and t = "''ns''"
         and k = Namespace,
       THEN conjunct2, THEN conjunct2, THEN conjunct1, THEN mp] r(3)
    by (simp add: arg_get_def lower_examples)
  have w5: "call_tool offline ''kubectl_get'' [''resource_type'' \<mapsto> PStr ''ConfigMap''] =
     ([], Inr [TextContent ''Unsupported resource type: configmap''])"
    using kind_resolution
      [where e = offline and arguments = Map.empty and t = "''ConfigMap''",
       THEN conjunct2, THEN conjunct2, THEN conjunct2, THEN conjunct1, THEN mp] r(4)
    by (simp add: lower_examples)
  have d: "truthy (PStr ''{kind: Pod, metadata: {name: web}}'')"
    "truthy (PStr ''{kind: Node, metadata: {name: worker-1}}'')"
    "truthy (PStr ''{kind: pods, metadata: {name: web}}'')"
    by simp_all
  have s: "safe_load (parsing manifests) (PStr ''{kind: Pod, metadata: {name: web}}'') =
      Inr (PDict [(''kind'', PStr ''Pod''), (''metadata'', PDict [(''name'', PStr ''web'')])])"
    "safe_load (parsing manifests) (PStr ''{kind: Node, metadata: {name: worker-1}}'') =
      Inr (PDict [(''kind'', PStr ''Node''),
                  (''metadata'', PDict [(''name'', PStr ''worker-1'')])])"
    "safe_load (parsing manifests) (PStr ''{kind: pods, metadata: {name: web}}'') =
      Inr (PDict [(''kind'', PStr ''pods''), (''metadata'', PDict [(''name'', PStr ''web'')])])"
    by (simp_all add: safe_load_def parsing_manifests web_manifest_def)
  have w6: "call_tool (parsing manifests) ''kubectl_delete''
       [''yaml_content'' \<mapsto> PStr ''{kind: Pod, metadata: {name: web}}''] =
     ([Delete_namespaced_pod (PStr ''web'') (PStr ''default'')],
      Inr [TextContent ''Successfully deleted pod/web from namespace default''])"
    using kind_resolution
      [where e = "parsing manifests" and arguments = Map.empty
         and y = "PStr ''{kind: Pod, metadata: {name: web}}''"
         and manifest = "[(''kind'', PStr ''Pod''), (''metadata'', PDict [(''name'', PStr ''web'')])]"
         and kind = "''Pod''" and metadata = "[(''name'', PStr ''web'')]"
         and resource_name = "PStr ''web''" and resource_namespace = "PStr ''default''"
         and dk = Pod,
       THEN conjunct2, THEN conjunct2, THEN conjunct2, THEN conjunct2, THEN mp,
       THEN conjunct1, THEN mp] d(1) s(1)
    by (simp add: arg_get_def lower_examples parsing_deletes py_str_def)
  have w7: "call_tool (parsing manifests) ''kubectl_delete''
       [''yaml_content'' \<mapsto> PStr ''{kind: Node, metadata: {name: worker-1}}''] =
     ([], Inr [TextContent ''Generic deletion not fully implemented for node''])"
    using kind_resolution
      [where e = "parsing manifests" and arguments = Map.empty
         and y = "PStr ''{kind: Node, metadata: {name: worker-1}}''"
         and manifest = "[(''kind'', PStr ''Node''),
                          (''metadata'', PDict [(''name'', PStr ''worker-1'')])]"
         and kind = "''Node''" and metadata = "[(''name'', PStr ''worker-1'')]"
         and resource_name = "PStr ''worker-1''" and resource_namespace = "PStr ''default''"
         and dk = Node,
       THEN conjunct2, THEN conjunct2, THEN conjunct2, THEN conjunct2, THEN mp,
       THEN conjunct1, THEN mp] d(2) s(2)
    by (simp add: arg_get_def lower_examples)
  have n: "\<forall>k. lower ''pods'' \<noteq> canonical k"
  proof
    fix k show "lower ''pods'' \<noteq> canonical k"
      by (cases k) (simp_all add: lower_examples)
  qed
  have w8: "call_tool (parsing manifests) ''kubectl_delete''
       [''yaml_content'' \<mapsto> PStr ''{kind: pods, metadata: {name: web}}''] =
     ([], Inr [TextContent ''Generic deletion not fully implemented for pods''])"
    using kind_resolution
      [where e = "parsing manifests" and arguments = Map.empty
         and y = "PStr ''{kind: pods, metadata: {name: web}}''"
         and manifest = "[(''kind'', PStr ''pods''), (''metadata'', PDict [(''name'', PStr ''web'')])]"
         and kind = "''pods''" and metadata = "[(''name'', PStr ''web'')]"
         and resource_name = "PStr ''web''" and resource_namespace = "PStr ''default''",
       THEN conjunct2, THEN conjunct2, THEN conjunct2, THEN conjunct2, THEN mp,
       THEN conjunct2, THEN mp, OF _ n] d(3) s(3)
    by (simp add: arg_get_def lower_examples)
  from w1 w2 w3 w4 w5 w6 w7 w8 show ?thesis by (intro conjI)
qed

end
